theory Spec2Isabelle
  imports Main "HOL-Library.AList"
begin

section \<open>Strings and regular expressions of the source language\<close>

text \<open>
  The source is TypeScript. A string is a sequence of code units; it is modelled as
  \<open>string\<close>, one \<open>char\<close> per code unit, which covers the code units U+0000 to U+00FF.
  \<open>length\<close> is then the \<open>.length\<close> of the source, and the character classes below are
  the ones of the source restricted to that range.
\<close>

definition codeUnit :: "char \<Rightarrow> nat" where
  "codeUnit c = of_char c"

definition between :: "nat \<Rightarrow> nat \<Rightarrow> char \<Rightarrow> bool" where
  "between lo hi c = (lo \<le> codeUnit c \<and> codeUnit c \<le> hi)"

definition oneOf :: "string \<Rightarrow> char \<Rightarrow> bool" where
  "oneOf cs c = (c \<in> set cs)"

text \<open>Line terminators and white space (\<open>\s\<close>, and what \<open>trim\<close> strips).\<close>

definition isLineTerminator :: "char \<Rightarrow> bool" where
  "isLineTerminator c = (codeUnit c = 0x0A \<or> codeUnit c = 0x0D)"

definition isWhiteSpace :: "char \<Rightarrow> bool" where
  "isWhiteSpace c = (between 0x09 0x0D c \<or> codeUnit c = 0x20 \<or> codeUnit c = 0xA0)"

definition trim :: "string \<Rightarrow> string" where
  "trim s = rev (dropWhile isWhiteSpace (rev (dropWhile isWhiteSpace s)))"

definition lowerChar :: "char \<Rightarrow> char" where
  "lowerChar c =
     (if between 0x41 0x5A c \<or> (between 0xC0 0xDE c \<and> codeUnit c \<noteq> 0xD7)
      then char_of (codeUnit c + 32) else c)"

definition toLowerCase :: "string \<Rightarrow> string" where
  "toLowerCase s = map lowerChar s"

text \<open>
  Canonicalisation of a code unit under the \<open>i\<close> flag of a regular expression: the
  upper-case form, when that is one code unit, except that a code unit from 128 on is
  never mapped below 128. In the range modelled here the letters \<open>a\<close> to \<open>z\<close> and
  U+00E0 to U+00FE (without U+00F7) move down by 32; U+00B5 and U+00FF have their upper
  case outside the range and keep their place, which no other code unit of the range
  shares.
\<close>

definition canonicalize :: "char \<Rightarrow> char" where
  "canonicalize c =
     (if between 0x61 0x7A c \<or> (between 0xE0 0xFE c \<and> codeUnit c \<noteq> 0xF7)
      then char_of (codeUnit c - 32) else c)"

definition startsWith :: "string \<Rightarrow> string \<Rightarrow> bool" where
  "startsWith s t = (take (length t) s = t)"

fun includes_str :: "string \<Rightarrow> string \<Rightarrow> bool" where
  "includes_str [] t = (t = [])"
| "includes_str (c # cs) t = (startsWith (c # cs) t \<or> includes_str cs t)"

text \<open>
  Regular expressions without back-references, matched by derivatives. \<open>Rep n r\<close> is
  \<open>r{n,}\<close>; \<open>Rep 0 r\<close> is \<open>r*\<close>.
\<close>

datatype rx = Never | Eps | Cls "char \<Rightarrow> bool" | Seq rx rx | Alt rx rx | Rep nat rx

fun nullable :: "rx \<Rightarrow> bool" where
  "nullable Never = False"
| "nullable Eps = True"
| "nullable (Cls p) = False"
| "nullable (Seq r s) = (nullable r \<and> nullable s)"
| "nullable (Alt r s) = (nullable r \<or> nullable s)"
| "nullable (Rep n r) = (n = 0 \<or> nullable r)"

fun deriv :: "char \<Rightarrow> rx \<Rightarrow> rx" where
  "deriv c Never = Never"
| "deriv c Eps = Never"
| "deriv c (Cls p) = (if p c then Eps else Never)"
| "deriv c (Seq r s) =
     (if nullable r then Alt (Seq (deriv c r) s) (deriv c s) else Seq (deriv c r) s)"
| "deriv c (Alt r s) = Alt (deriv c r) (deriv c s)"
| "deriv c (Rep n r) = Seq (deriv c r) (Rep (n - 1) r)"

fun matchesPrefix :: "rx \<Rightarrow> string \<Rightarrow> bool" where
  "matchesPrefix r [] = nullable r"
| "matchesPrefix r (c # cs) = (nullable r \<or> matchesPrefix (deriv c r) cs)"

text \<open>\<open>regex.test(s)\<close>: some substring of \<open>s\<close> matches.\<close>

fun rx_test :: "rx \<Rightarrow> string \<Rightarrow> bool" where
  "rx_test r [] = nullable r"
| "rx_test r (c # cs) = (matchesPrefix r (c # cs) \<or> rx_test r cs)"

definition Chr :: "char \<Rightarrow> rx" where
  "Chr x = Cls (\<lambda>c. c = x)"

definition ChrI :: "char \<Rightarrow> rx" where
  "ChrI x = Cls (\<lambda>c. canonicalize c = canonicalize x)"

definition Lit :: "string \<Rightarrow> rx" where
  "Lit s = foldr (\<lambda>x r. Seq (Chr x) r) s Eps"

definition LitI :: "string \<Rightarrow> rx" where
  "LitI s = foldr (\<lambda>x r. Seq (ChrI x) r) s Eps"

definition Opt :: "rx \<Rightarrow> rx" where
  "Opt r = Alt r Eps"

definition Seqs :: "rx list \<Rightarrow> rx" where
  "Seqs rs = foldr Seq rs Eps"

text \<open>A \<open>RegExp\<close> object supplied by a caller: its source text and its \<open>test\<close> method.\<close>

record RegExp =
  source :: string
  test :: "string \<Rightarrow> bool"

section \<open>The command sanitizer (claude-command-sanitizer.ts)\<close>

text \<open>
  \<open>SanitizationOptions\<close> has every field optional; \<open>Required<SanitizationOptions>\<close> has
  them all. The numeric limits are JavaScript numbers, modelled as integers.
\<close>

record SanitizationOptions =
  allowFileSystemAccess_opt :: "bool option"
  allowNetworkAccess_opt :: "bool option"
  allowEnvironmentVariables_opt :: "bool option"
  allowShellMetacharacters_opt :: "bool option"
  maxCommandLength_opt :: "int option"
  maxArgumentLength_opt :: "int option"
  maxArgumentCount_opt :: "int option"
  customAllowedPatterns_opt :: "RegExp list option"
  customBlockedPatterns_opt :: "RegExp list option"

record RequiredOptions =
  allowFileSystemAccess :: bool
  allowNetworkAccess :: bool
  allowEnvironmentVariables :: bool
  allowShellMetacharacters :: bool
  maxCommandLength :: int
  maxArgumentLength :: int
  maxArgumentCount :: int
  customAllowedPatterns :: "RegExp list"
  customBlockedPatterns :: "RegExp list"

text \<open>
  The messages pushed on \<open>violations\<close> and \<open>warnings\<close> are template strings. Each
  template is a constructor here, carrying the values the template interpolates.
\<close>

datatype violation =
    EmptyCommand
  | CommandTooLong int
  | ShellMetaInCommand
  | PathTraversalInCommand
  | BlockedPattern string
  | TooManyArguments nat int
  | ArgumentTooLong nat nat int
  | ShellMetaInArgument nat string
  | NetworkUrlInArgument nat
  | PathTraversalInArgument nat string
  | EnvVarInArgument nat string
  | BinaryInArgument nat
  | FileSystemAccessDisabled
  | PathTraversalInWorkingDirectory
  | DangerousFileOperation
  | ExposedApiKey nat
  | MayContainApiKey nat

datatype warning =
    DangerousClaudeArgument string
  | FileOperationArgument string
  | SensitiveKeyMaterial nat
  | PromptInjection nat
  | ExcessiveRepetition nat
  | SensitiveWorkingDirectory

record SanitizationResult =
  isValid :: bool
  sanitizedCommand :: "string option"
  sanitizedArgs :: "string list option"
  sanitizedWorkingDirectory :: "string option"
  violations :: "violation list"
  warnings :: "warning list"

record ClaudeCommandSanitizer =
  defaultOptions :: RequiredOptions

text \<open>
  The object spread \<open>{ ...base, ...options }\<close>. \<open>None\<close> is a key that is absent; a key
  that is present with the value \<open>undefined\<close> is not modelled.
\<close>

definition spread :: "RequiredOptions \<Rightarrow> SanitizationOptions \<Rightarrow> RequiredOptions" where
  "spread base options = \<lparr>
     allowFileSystemAccess =
       (case allowFileSystemAccess_opt options of Some v \<Rightarrow> v | None \<Rightarrow> allowFileSystemAccess base),
     allowNetworkAccess =
       (case allowNetworkAccess_opt options of Some v \<Rightarrow> v | None \<Rightarrow> allowNetworkAccess base),
     allowEnvironmentVariables =
       (case allowEnvironmentVariables_opt options of Some v \<Rightarrow> v
        | None \<Rightarrow> allowEnvironmentVariables base),
     allowShellMetacharacters =
       (case allowShellMetacharacters_opt options of Some v \<Rightarrow> v
        | None \<Rightarrow> allowShellMetacharacters base),
     maxCommandLength =
       (case maxCommandLength_opt options of Some v \<Rightarrow> v | None \<Rightarrow> maxCommandLength base),
     maxArgumentLength =
       (case maxArgumentLength_opt options of Some v \<Rightarrow> v | None \<Rightarrow> maxArgumentLength base),
     maxArgumentCount =
       (case maxArgumentCount_opt options of Some v \<Rightarrow> v | None \<Rightarrow> maxArgumentCount base),
     customAllowedPatterns =
       (case customAllowedPatterns_opt options of Some v \<Rightarrow> v
        | None \<Rightarrow> customAllowedPatterns base),
     customBlockedPatterns =
       (case customBlockedPatterns_opt options of Some v \<Rightarrow> v
        | None \<Rightarrow> customBlockedPatterns base) \<rparr>"

definition noOptions :: SanitizationOptions where
  "noOptions = \<lparr>
     allowFileSystemAccess_opt = None, allowNetworkAccess_opt = None,
     allowEnvironmentVariables_opt = None, allowShellMetacharacters_opt = None,
     maxCommandLength_opt = None, maxArgumentLength_opt = None, maxArgumentCount_opt = None,
     customAllowedPatterns_opt = None, customBlockedPatterns_opt = None \<rparr>"

definition claudeOptions :: SanitizationOptions where
  "claudeOptions = \<lparr>
     allowFileSystemAccess_opt = Some True, allowNetworkAccess_opt = Some True,
     allowEnvironmentVariables_opt = Some True, allowShellMetacharacters_opt = Some False,
     maxCommandLength_opt = Some 100, maxArgumentLength_opt = Some 2000,
     maxArgumentCount_opt = Some 50,
     customAllowedPatterns_opt = None, customBlockedPatterns_opt = None \<rparr>"

definition strictOptions :: SanitizationOptions where
  "strictOptions = \<lparr>
     allowFileSystemAccess_opt = Some False, allowNetworkAccess_opt = Some False,
     allowEnvironmentVariables_opt = Some False, allowShellMetacharacters_opt = Some False,
     maxCommandLength_opt = Some 50, maxArgumentLength_opt = Some 100,
     maxArgumentCount_opt = Some 5,
     customAllowedPatterns_opt = None, customBlockedPatterns_opt = None \<rparr>"

definition new_ClaudeCommandSanitizer :: "SanitizationOptions \<Rightarrow> ClaudeCommandSanitizer" where
  "new_ClaudeCommandSanitizer options = \<lparr> defaultOptions = spread \<lparr>
     allowFileSystemAccess = True, allowNetworkAccess = True,
     allowEnvironmentVariables = True, allowShellMetacharacters = False,
     maxCommandLength = 100, maxArgumentLength = 2000, maxArgumentCount = 50,
     customAllowedPatterns = [], customBlockedPatterns = [] \<rparr> options \<rparr>"

definition createClaudeSanitizer :: ClaudeCommandSanitizer where
  "createClaudeSanitizer = new_ClaudeCommandSanitizer claudeOptions"

definition createStrictSanitizer :: ClaudeCommandSanitizer where
  "createStrictSanitizer = new_ClaudeCommandSanitizer strictOptions"

text \<open>
  \<open>violate\<close> is the pair of statements \<open>result.violations.push(v); result.isValid = false\<close>,
  \<open>warn\<close> is \<open>result.warnings.push(w)\<close>, \<open>whenever\<close> a conditional statement, and
  \<open>forEachArg\<close> the loop \<open>for (let i = 0; i < args.length; i++) { const arg = args[i]; ... }\<close>
  started at index \<open>i\<close>.
\<close>

definition violate :: "violation \<Rightarrow> SanitizationResult \<Rightarrow> SanitizationResult" where
  "violate v r = r\<lparr> violations := violations r @ [v], isValid := False \<rparr>"

definition warn :: "warning \<Rightarrow> SanitizationResult \<Rightarrow> SanitizationResult" where
  "warn w r = r\<lparr> warnings := warnings r @ [w] \<rparr>"

definition whenever :: "bool \<Rightarrow> ('s \<Rightarrow> 's) \<Rightarrow> 's \<Rightarrow> 's" where
  "whenever b f r = (if b then f r else r)"

fun forEachArg :: "(nat \<Rightarrow> string \<Rightarrow> 's \<Rightarrow> 's) \<Rightarrow> nat \<Rightarrow> string list \<Rightarrow> 's \<Rightarrow> 's" where
  "forEachArg body i [] r = r"
| "forEachArg body i (arg # rest) r = forEachArg body (Suc i) rest (body i arg r)"

subsection \<open>The patterns\<close>

definition shellMetaChars :: rx where
  "shellMetaChars = Cls (oneOf ('';&|$(){}[]<>*~'' @ [CHR 0x60, CHR 0x5C]))"

definition dangerousShellMetaChars :: rx where
  "dangerousShellMetaChars = Cls (oneOf ('';&|$(){}[]<>*~'' @ [CHR 0x60]))"

definition urlPattern :: rx where
  "urlPattern = Seqs [LitI ''http'', Opt (ChrI CHR ''s''), LitI ''://'']"

definition envVarPattern :: rx where
  "envVarPattern = Seqs
     [Chr CHR ''$'', Opt (Chr CHR ''{''),
      Cls (\<lambda>c. between 0x41 0x5A c \<or> c = CHR ''_''),
      Rep 0 (Cls (\<lambda>c. between 0x41 0x5A c \<or> between 0x30 0x39 c \<or> c = CHR ''_'')),
      Opt (Chr CHR ''}'')]"

definition binaryPattern :: rx where
  "binaryPattern = Cls (\<lambda>c. between 0x00 0x08 c \<or> codeUnit c = 0x0B \<or> codeUnit c = 0x0C
     \<or> between 0x0E 0x1F c \<or> between 0x7F 0x9F c)"

definition keyChar :: "char \<Rightarrow> bool" where
  "keyChar c = (between 0x61 0x7A c \<or> between 0x41 0x5A c \<or> between 0x30 0x39 c
     \<or> c = CHR ''_'' \<or> c = CHR ''-'')"

definition anthropicKeyPattern :: rx where
  "anthropicKeyPattern = Seqs [Lit ''sk-ant-'', Rep 95 (Cls keyChar)]"

definition genericKeyPattern :: rx where
  "genericKeyPattern = Seqs
     [Opt (Cls (oneOf [CHR 0x27, CHR 0x22])), Rep 32 (Cls keyChar),
      Opt (Cls (oneOf [CHR 0x27, CHR 0x22]))]"

definition injectionPatterns :: "rx list" where
  "injectionPatterns =
     [Seqs [LitI ''ignore'', Rep 1 (Cls isWhiteSpace), LitI ''previous'',
            Rep 1 (Cls isWhiteSpace), LitI ''instructions''],
      Seqs [LitI ''forget'', Rep 1 (Cls isWhiteSpace), LitI ''everything''],
      Seqs [LitI ''you'', Rep 1 (Cls isWhiteSpace), LitI ''are'',
            Rep 1 (Cls isWhiteSpace), LitI ''now''],
      Seqs [LitI ''system:'', Rep 0 (Cls isWhiteSpace), LitI ''override''],
      Seqs [LitI [CHR 0x5C, CHR ''n'', CHR 0x5C, CHR ''n'', CHR ''#''],
            Rep 0 (Cls isWhiteSpace), LitI ''new'', Rep 1 (Cls isWhiteSpace), LitI ''role'']]"

text \<open>
  The two patterns of \<open>hasExcessiveRepetition\<close> use a back-reference, so they are
  written out: \<open>/(.)\1{49,}/\<close> matches where a code unit other than a line terminator
  stands fifty times in a row, \<open>/(.{3,})\1{9,}/\<close> where a block of \<open>k \<ge> 3\<close> such code
  units stands ten times in a row.
\<close>

fun anySuffix :: "(string \<Rightarrow> bool) \<Rightarrow> string \<Rightarrow> bool" where
  "anySuffix P [] = P []"
| "anySuffix P (c # cs) = (P (c # cs) \<or> anySuffix P cs)"

definition repeatedCharAt :: "string \<Rightarrow> bool" where
  "repeatedCharAt t =
     (case t of [] \<Rightarrow> False
      | c # _ \<Rightarrow> \<not> isLineTerminator c \<and> take 50 t = replicate 50 c)"

definition repeatedBlockAt :: "string \<Rightarrow> bool" where
  "repeatedBlockAt t =
     list_ex (\<lambda>k. list_all (\<lambda>c. \<not> isLineTerminator c) (take k t)
                 \<and> take (10 * k) t = concat (replicate 10 (take k t)))
       [3 ..< Suc (length t div 10)]"

definition hasExcessiveRepetition :: "string \<Rightarrow> bool" where
  "hasExcessiveRepetition text =
     (if anySuffix repeatedCharAt text then True
      else if anySuffix repeatedBlockAt text then True
      else False)"

definition isSensitiveDirectory :: "string \<Rightarrow> bool" where
  "isSensitiveDirectory path =
     list_ex (\<lambda>sensitivePath. startsWith path sensitivePath)
       [''/etc'', ''/proc'', ''/sys'', ''/root'', ''/boot'', ''/dev'', ''/var/log'']"

subsection \<open>The validations\<close>

definition validateCommandLength ::
  "string \<Rightarrow> RequiredOptions \<Rightarrow> SanitizationResult \<Rightarrow> SanitizationResult" where
  "validateCommandLength command options r =
     (let trimmedCommand = trim command in
      if length trimmedCommand = 0 then violate EmptyCommand r
      else (whenever (int (length trimmedCommand) > maxCommandLength options)
              (violate (CommandTooLong (maxCommandLength options))) r)
           \<lparr> sanitizedCommand := Some trimmedCommand \<rparr>)"

definition validateCommandName ::
  "string \<Rightarrow> RequiredOptions \<Rightarrow> SanitizationResult \<Rightarrow> SanitizationResult" where
  "validateCommandName command options r =
     (let trimmedCommand = trim command;
          r1 = whenever (\<not> allowShellMetacharacters options
                         \<and> rx_test shellMetaChars trimmedCommand)
                 (violate ShellMetaInCommand) r;
          r2 = whenever (includes_str trimmedCommand ''..'')
                 (violate PathTraversalInCommand) r1
      in fold (\<lambda>pattern. whenever (test pattern trimmedCommand)
                            (violate (BlockedPattern (source pattern))))
           (customBlockedPatterns options) r2)"

definition validateArgumentCount ::
  "string list \<Rightarrow> RequiredOptions \<Rightarrow> SanitizationResult \<Rightarrow> SanitizationResult" where
  "validateArgumentCount args options r =
     whenever (int (length args) > maxArgumentCount options)
       (violate (TooManyArguments (length args) (maxArgumentCount options))) r"

definition validateArgument ::
  "RequiredOptions \<Rightarrow> nat \<Rightarrow> string \<Rightarrow> SanitizationResult \<Rightarrow> SanitizationResult" where
  "validateArgument options i arg r =
     (let r1 = whenever (int (length arg) > maxArgumentLength options)
                 (violate (ArgumentTooLong i (length arg) (maxArgumentLength options))) r;
          r2 = whenever (\<not> allowShellMetacharacters options
                         \<and> rx_test dangerousShellMetaChars arg)
                 (violate (ShellMetaInArgument i arg)) r1;
          r3 = whenever (\<not> allowNetworkAccess options \<and> rx_test urlPattern arg)
                 (violate (NetworkUrlInArgument i)) r2;
          r4 = whenever (includes_str arg ''..'')
                 (violate (PathTraversalInArgument i arg)) r3;
          r5 = whenever (\<not> allowEnvironmentVariables options \<and> rx_test envVarPattern arg)
                 (violate (EnvVarInArgument i arg)) r4
      in whenever (rx_test binaryPattern arg) (violate (BinaryInArgument i)) r5)"

definition validateArguments ::
  "string list \<Rightarrow> RequiredOptions \<Rightarrow> SanitizationResult \<Rightarrow> SanitizationResult" where
  "validateArguments args options r = forEachArg (validateArgument options) 0 args r"

text \<open>
  \<open>if (!workingDirectory) return\<close> leaves on an absent and on an empty working directory.
\<close>

definition validateWorkingDirectory ::
  "string option \<Rightarrow> RequiredOptions \<Rightarrow> SanitizationResult \<Rightarrow> SanitizationResult" where
  "validateWorkingDirectory workingDirectory options r =
     (case workingDirectory of
        None \<Rightarrow> r
      | Some wd \<Rightarrow>
          if wd = [] then r
          else if \<not> allowFileSystemAccess options then violate FileSystemAccessDisabled r
          else
            (let r1 = whenever (includes_str wd ''..'')
                        (violate PathTraversalInWorkingDirectory) r
             in whenever (isSensitiveDirectory wd) (warn SensitiveWorkingDirectory) r1))"

definition validateClaudeArguments ::
  "string list \<Rightarrow> SanitizationResult \<Rightarrow> SanitizationResult" where
  "validateClaudeArguments args r =
     (let r1 = fold (\<lambda>arg. whenever
                   (list_ex (\<lambda>dangerous. includes_str arg dangerous)
                      [''--eval'', ''--execute'', ''--shell'', ''--run''])
                   (warn (DangerousClaudeArgument arg))) args r
      in fold (\<lambda>arg. whenever
                   (list_ex (\<lambda>flag. startsWith arg flag)
                      [''--file'', ''-f'', ''--output'', ''-o''])
                   (warn (FileOperationArgument arg))) args r1)"

definition validateDangerousOperations ::
  "string \<Rightarrow> string list \<Rightarrow> string option \<Rightarrow> SanitizationResult \<Rightarrow> SanitizationResult" where
  "validateDangerousOperations command args workingDirectory r =
     whenever
       (list_ex (\<lambda>dangerous. dangerous = toLowerCase command)
          [''rm'', ''del'', ''delete'', ''format'', ''mkfs'', ''dd''])
       (\<lambda>r. let sensitiveArgs = list_ex (\<lambda>arg.
                 includes_str arg ''/etc/'' \<or> includes_str arg ''/root/''
                 \<or> includes_str arg ''/sys/'' \<or> includes_str arg ''/boot/''
                 \<or> includes_str arg ''/dev/'') args
            in whenever
                 (sensitiveArgs \<or>
                  (case workingDirectory of None \<Rightarrow> False
                   | Some wd \<Rightarrow> wd \<noteq> [] \<and> isSensitiveDirectory wd))
                 (violate DangerousFileOperation) r)
       r"

definition validateApiKeyArgument ::
  "nat \<Rightarrow> string \<Rightarrow> SanitizationResult \<Rightarrow> SanitizationResult" where
  "validateApiKeyArgument i arg r =
     (let r1 = whenever (includes_str arg ''sk-ant-'' \<or> rx_test anthropicKeyPattern arg)
                 (violate (ExposedApiKey i)) r;
          r2 = whenever (includes_str arg ''ANTHROPIC_API_KEY'' \<and> \<not> startsWith arg ''$'')
                 (violate (MayContainApiKey i)) r1
      in whenever (rx_test genericKeyPattern arg \<and> includes_str (toLowerCase arg) ''key'')
           (warn (SensitiveKeyMaterial i)) r2)"

definition validateApiKeySafety ::
  "string list \<Rightarrow> SanitizationResult \<Rightarrow> SanitizationResult" where
  "validateApiKeySafety args r = forEachArg validateApiKeyArgument 0 args r"

definition validatePromptArgument ::
  "nat \<Rightarrow> string \<Rightarrow> SanitizationResult \<Rightarrow> SanitizationResult" where
  "validatePromptArgument i arg r =
     (let r1 = fold (\<lambda>pattern. whenever (rx_test pattern arg) (warn (PromptInjection i)))
                 injectionPatterns r
      in whenever (hasExcessiveRepetition arg) (warn (ExcessiveRepetition i)) r1)"

definition validatePromptSafety ::
  "string list \<Rightarrow> SanitizationResult \<Rightarrow> SanitizationResult" where
  "validatePromptSafety args r = forEachArg validatePromptArgument 0 args r"

definition performClaudeSpecificValidations ::
  "string \<Rightarrow> string list \<Rightarrow> string option \<Rightarrow> SanitizationResult \<Rightarrow> SanitizationResult" where
  "performClaudeSpecificValidations command args workingDirectory r =
     (let r1 = whenever (command = ''claude'') (validateClaudeArguments args) r;
          r2 = validateDangerousOperations command args workingDirectory r1;
          r3 = validateApiKeySafety args r2
      in validatePromptSafety args r3)"

definition sanitizeCommand ::
  "ClaudeCommandSanitizer \<Rightarrow> string \<Rightarrow> string list \<Rightarrow> string option
     \<Rightarrow> SanitizationOptions \<Rightarrow> SanitizationResult" where
  "sanitizeCommand self command args workingDirectory options =
     (let mergedOptions = spread (defaultOptions self) options;
          result = \<lparr> isValid = True, sanitizedCommand = Some command,
                     sanitizedArgs = Some args,
                     sanitizedWorkingDirectory = workingDirectory,
                     violations = [], warnings = [] \<rparr>;
          r1 = validateCommandLength command mergedOptions result;
          r2 = validateCommandName command mergedOptions r1;
          r3 = validateArgumentCount args mergedOptions r2;
          r4 = validateArguments args mergedOptions r3;
          r5 = validateWorkingDirectory workingDirectory mergedOptions r4
      in performClaudeSpecificValidations command args workingDirectory r5)"

definition sanitizeClaudeCommand ::
  "ClaudeCommandSanitizer \<Rightarrow> string \<Rightarrow> string list \<Rightarrow> string option \<Rightarrow> SanitizationResult" where
  "sanitizeClaudeCommand self command args workingDirectory =
     sanitizeCommand self command args workingDirectory claudeOptions"

text \<open>
  Two predicates on verdicts used in the proofs: a verdict is consistent when its flag
  says that it has no violation, and \<open>hasTooLong i n m\<close> says that the verdict lists
  the length violation of argument \<open>i\<close> with length \<open>n\<close> against the bound \<open>m\<close>.
\<close>

definition verdictOK :: "SanitizationResult \<Rightarrow> bool" where
  "verdictOK r = (isValid r = (violations r = []))"

definition hasTooLong :: "nat \<Rightarrow> nat \<Rightarrow> int \<Rightarrow> SanitizationResult \<Rightarrow> bool" where
  "hasTooLong i n m r = (ArgumentTooLong i n m \<in> set (violations r))"

section \<open>The shared types (types/claude.ts)\<close>

datatype OutputType = Stdout | Stderr | Exit | Error

definition typeName :: "OutputType \<Rightarrow> string" where
  "typeName t = (case t of Stdout \<Rightarrow> ''stdout'' | Stderr \<Rightarrow> ''stderr''
                 | Exit \<Rightarrow> ''exit'' | Error \<Rightarrow> ''error'')"

record ClaudeOutput =
  o_processId :: string
  o_type :: OutputType
  o_data :: string
  o_timestamp :: nat
  o_exitCode :: "int option"

type_synonym ClaudeStreamEvent = ClaudeOutput

record ClaudeCommand =
  c_id :: string
  c_command :: string
  c_args :: "string list"
  c_workingDirectory :: "string option"
  c_timeout :: "int option"
  c_input :: "string option"

record ClaudeConfig =
  cfg_commandTimeout :: int
  cfg_maxBufferSize :: int
  cfg_logLevel :: string
  cfg_maxRetries :: int
  cfg_retryDelay :: int

text \<open>
  Every exception of the source is an \<open>Error\<close> with a message. The constructors name
  the kinds of the specification and carry what the message interpolates. The last one
  is what an event emitter throws when \<open>'error'\<close> is emitted and nobody listens to it.
\<close>

datatype error =
    ShutdownError
  | SanitizationError "violation list"
  | DuplicateIdError string
  | TimeoutError int
  | ProcessExitError "int option" "string option" string
  | SpawnError string
  | UnhandledError ClaudeStreamEvent

text \<open>Decimal text of a number, as a template string prints it.\<close>

fun decimal :: "nat \<Rightarrow> string" where
  "decimal n =
     (if n < 10 then [char_of (48 + n)]
      else decimal (n div 10) @ [char_of (48 + n mod 10)])"

declare decimal.simps [simp del]

definition showInt :: "int \<Rightarrow> string" where
  "showInt i = (if i < 0 then ''-'' @ decimal (nat (- i)) else decimal (nat i))"

section \<open>The output streamer (claude-output-streamer.ts)\<close>

text \<open>
  The streamer extends an event emitter. Its listeners are kept as the list of
  registrations (event name and handler, a handler being a number) in the order they were
  made; \<open>delivered\<close> logs every call of a handler with the value it received, in the
  order of the calls. A handler only observes. The two maps of the class are association
  lists in insertion order, as a \<open>Map\<close> iterates. The event \<open>'newListener'\<close>, which an
  emitter emits at every registration, is not modelled.
\<close>

datatype payload = StreamEvent ClaudeStreamEvent | Lifecycle string nat

datatype NamingPattern = colon | dash

record streamer =
  activeStreams :: "(string \<times> bool) list"
  buffers :: "(string \<times> string list) list"
  maxBufferSize :: int
  eventNamingPattern :: NamingPattern
  listeners :: "(string \<times> nat) list"
  delivered :: "(nat \<times> payload) list"

text \<open>\<open>config.maxBufferSize || 1000\<close> and \<open>config.eventNamingPattern || 'colon'\<close>.\<close>

definition new_ClaudeOutputStreamer :: "int option \<Rightarrow> NamingPattern option \<Rightarrow> streamer" where
  "new_ClaudeOutputStreamer maxBufferSize_cfg eventNamingPattern_cfg = \<lparr>
     activeStreams = [], buffers = [],
     maxBufferSize = (case maxBufferSize_cfg of None \<Rightarrow> 1000
                      | Some n \<Rightarrow> if n = 0 then 1000 else n),
     eventNamingPattern = (case eventNamingPattern_cfg of None \<Rightarrow> colon | Some p \<Rightarrow> p),
     listeners = [], delivered = [] \<rparr>"

subsection \<open>The event emitter\<close>

definition on :: "string \<Rightarrow> nat \<Rightarrow> streamer \<Rightarrow> streamer" where
  "on name handler s = s\<lparr> listeners := listeners s @ [(name, handler)] \<rparr>"

text \<open>\<open>off\<close> removes the most recent registration of the handler under the name.\<close>

definition off :: "string \<Rightarrow> nat \<Rightarrow> streamer \<Rightarrow> streamer" where
  "off name handler s = s\<lparr> listeners := rev (remove1 (name, handler) (rev (listeners s))) \<rparr>"

definition listenersOf :: "string \<Rightarrow> streamer \<Rightarrow> nat list" where
  "listenersOf name s = map snd (filter (\<lambda>l. fst l = name) (listeners s))"

text \<open>\<open>deliver\<close> calls the listeners of a name in the order of their registration.\<close>

definition deliver :: "string \<Rightarrow> payload \<Rightarrow> streamer \<Rightarrow> streamer" where
  "deliver name p s =
     s\<lparr> delivered := delivered s @ map (\<lambda>handler. (handler, p)) (listenersOf name s) \<rparr>"

text \<open>
  \<open>emit\<close>: the name \<open>'error'\<close> without a listener throws; every other emission calls
  the listeners. Where the source emits under a name that cannot be \<open>'error'\<close> (a literal
  other than it, or a name made by \<open>formatProcessEvent\<close>, which is longer), the
  model calls \<open>deliver\<close>.
\<close>

definition emit :: "string \<Rightarrow> ClaudeStreamEvent \<Rightarrow> streamer \<Rightarrow> error option \<times> streamer" where
  "emit name ev s =
     (if name = ''error'' \<and> listenersOf name s = [] then (Some (UnhandledError ev), s)
      else (None, deliver name (StreamEvent ev) s))"

definition formatProcessEvent :: "string \<Rightarrow> string \<Rightarrow> streamer \<Rightarrow> string" where
  "formatProcessEvent eventType processId s =
     (if eventNamingPattern s = colon then eventType @ '':'' @ processId
      else eventType @ ''-'' @ processId)"

subsection \<open>The methods\<close>

definition startStreaming :: "nat \<Rightarrow> string \<Rightarrow> streamer \<Rightarrow> streamer" where
  "startStreaming now processId s =
     (if map_of (activeStreams s) processId \<noteq> None then s
      else deliver ''stream-started'' (Lifecycle processId now)
             (s\<lparr> activeStreams := AList.update processId True (activeStreams s),
                 buffers := AList.update processId [] (buffers s) \<rparr>))"

definition addToBuffer :: "string \<Rightarrow> string \<Rightarrow> streamer \<Rightarrow> streamer" where
  "addToBuffer processId data s =
     (case map_of (buffers s) processId of
        None \<Rightarrow> s
      | Some buffer \<Rightarrow>
          (let pushed = buffer @ [data];
               trimmed = (if int (length pushed) > maxBufferSize s
                          then drop (nat (int (length pushed) - maxBufferSize s)) pushed
                          else pushed)
           in s\<lparr> buffers := AList.update processId trimmed (buffers s) \<rparr>))"

definition stopStreaming :: "nat \<Rightarrow> string \<Rightarrow> streamer \<Rightarrow> streamer" where
  "stopStreaming now processId s =
     (if map_of (activeStreams s) processId = None then s
      else deliver ''stream-stopped'' (Lifecycle processId now)
             (s\<lparr> activeStreams := AList.delete processId (activeStreams s) \<rparr>))"

definition isStreaming :: "string \<Rightarrow> streamer \<Rightarrow> bool" where
  "isStreaming processId s = (map_of (activeStreams s) processId = Some True)"

definition streamOutput :: "ClaudeOutput \<Rightarrow> streamer \<Rightarrow> error option \<times> streamer" where
  "streamOutput output s =
     (if map_of (activeStreams s) (o_processId output) \<noteq> Some True then (None, s)
      else
        (let s1 = addToBuffer (o_processId output) (o_data output) s;
             streamEvent = \<lparr> o_processId = o_processId output, o_type = o_type output,
                             o_data = o_data output, o_timestamp = o_timestamp output,
                             o_exitCode = o_exitCode output \<rparr>;
             s2 = deliver ''output'' (StreamEvent streamEvent) s1;
             s3 = deliver (formatProcessEvent ''output'' (o_processId output) s2)
                    (StreamEvent streamEvent) s2
         in case emit (typeName (o_type output)) streamEvent s3 of
              (Some e, s4) \<Rightarrow> (Some e, s4)
            | (None, s4) \<Rightarrow>
                (None, deliver (formatProcessEvent (typeName (o_type output))
                                  (o_processId output) s4)
                         (StreamEvent streamEvent) s4)))"

definition streamError :: "nat \<Rightarrow> string \<Rightarrow> string \<Rightarrow> streamer \<Rightarrow> error option \<times> streamer" where
  "streamError now processId err s =
     (if map_of (activeStreams s) processId \<noteq> Some True then (None, s)
      else
        (let s1 = addToBuffer processId err s;
             streamEvent = \<lparr> o_processId = processId, o_type = Error, o_data = err,
                             o_timestamp = now, o_exitCode = None \<rparr>
         in case emit ''error'' streamEvent s1 of
              (Some e, s2) \<Rightarrow> (Some e, s2)
            | (None, s2) \<Rightarrow>
                (None, deliver (formatProcessEvent ''error'' processId s2)
                         (StreamEvent streamEvent) s2)))"

definition streamProcessExit :: "nat \<Rightarrow> string \<Rightarrow> int \<Rightarrow> streamer \<Rightarrow> streamer" where
  "streamProcessExit now processId exitCode s =
     (if map_of (activeStreams s) processId \<noteq> Some True then s
      else
        (let exitMessage = ''Claude process exited with code '' @ showInt exitCode;
             streamEvent = \<lparr> o_processId = processId, o_type = Exit, o_data = exitMessage,
                             o_timestamp = now, o_exitCode = Some exitCode \<rparr>;
             s1 = deliver ''exit'' (StreamEvent streamEvent) s;
             s2 = deliver (formatProcessEvent ''exit'' processId s1)
                    (StreamEvent streamEvent) s1
         in stopStreaming now processId s2))"

definition getActiveStreams :: "streamer \<Rightarrow> string list" where
  "getActiveStreams s = map fst (activeStreams s)"

definition getFullOutput :: "string \<Rightarrow> streamer \<Rightarrow> string" where
  "getFullOutput processId s =
     (case map_of (buffers s) processId of Some buffer \<Rightarrow> concat buffer | None \<Rightarrow> [])"

definition getBuffer :: "string \<Rightarrow> streamer \<Rightarrow> string list" where
  "getBuffer processId s =
     (case map_of (buffers s) processId of Some buffer \<Rightarrow> buffer | None \<Rightarrow> [])"


definition onOutput :: "nat \<Rightarrow> streamer \<Rightarrow> streamer" where
  "onOutput handler s = on ''output'' handler s"

definition offOutput :: "nat \<Rightarrow> streamer \<Rightarrow> streamer" where
  "offOutput handler s = off ''output'' handler s"

definition onProcessOutput :: "string \<Rightarrow> nat \<Rightarrow> streamer \<Rightarrow> streamer" where
  "onProcessOutput processId handler s =
     on (formatProcessEvent ''output'' processId s) handler s"

definition offProcessOutput :: "string \<Rightarrow> nat \<Rightarrow> streamer \<Rightarrow> streamer" where
  "offProcessOutput processId handler s =
     off (formatProcessEvent ''output'' processId s) handler s"

definition onProcessError :: "string \<Rightarrow> nat \<Rightarrow> streamer \<Rightarrow> streamer" where
  "onProcessError processId handler s =
     on (formatProcessEvent ''error'' processId s) handler s"

definition offProcessError :: "string \<Rightarrow> nat \<Rightarrow> streamer \<Rightarrow> streamer" where
  "offProcessError processId handler s =
     off (formatProcessEvent ''error'' processId s) handler s"

definition onProcessExit :: "string \<Rightarrow> nat \<Rightarrow> streamer \<Rightarrow> streamer" where
  "onProcessExit processId handler s =
     on (formatProcessEvent ''exit'' processId s) handler s"

definition offProcessExit :: "string \<Rightarrow> nat \<Rightarrow> streamer \<Rightarrow> streamer" where
  "offProcessExit processId handler s =
     off (formatProcessEvent ''exit'' processId s) handler s"

definition shutdown_streamer :: "nat \<Rightarrow> streamer \<Rightarrow> streamer" where
  "shutdown_streamer now s =
     (let s1 = fold (\<lambda>processId. stopStreaming now processId) (map fst (activeStreams s)) s
      in s1\<lparr> buffers := [], listeners := [] \<rparr>)"

text \<open>What a handler has been called with, in order.\<close>

definition observed :: "nat \<Rightarrow> streamer \<Rightarrow> payload list" where
  "observed handler s = map snd (filter (\<lambda>d. fst d = handler) (delivered s))"

text \<open>
  For the properties of a sequence of calls: streaming a list of outputs one after the
  other, the calls a client or the manager can make on a streamer, and the stream events
  of one process id among everything delivered.
\<close>

definition streamOutputs :: "ClaudeOutput list \<Rightarrow> streamer \<Rightarrow> streamer" where
  "streamOutputs outputs s = fold (\<lambda>output st. snd (streamOutput output st)) outputs s"




definition isEventOf :: "string \<Rightarrow> payload \<Rightarrow> bool" where
  "isEventOf processId p =
     (case p of StreamEvent ev \<Rightarrow> o_processId ev = processId | Lifecycle name t \<Rightarrow> False)"

definition eventsOf :: "string \<Rightarrow> streamer \<Rightarrow> (nat \<times> payload) list" where
  "eventsOf processId s = filter (\<lambda>d. isEventOf processId (snd d)) (delivered s)"


text \<open>The event that \<open>streamProcessExit\<close> builds.\<close>

definition exitEvent :: "nat \<Rightarrow> string \<Rightarrow> int \<Rightarrow> ClaudeStreamEvent" where
  "exitEvent now processId exitCode =
     \<lparr> o_processId = processId, o_type = Exit,
       o_data = ''Claude process exited with code '' @ showInt exitCode,
       o_timestamp = now, o_exitCode = Some exitCode \<rparr>"

text \<open>An output of the process \<open>p\<close>, for the examples.\<close>

definition helloOutput :: ClaudeOutput where
  "helloOutput = \<lparr> o_processId = ''p'', o_type = Stdout, o_data = ''hello'',
                    o_timestamp = 1, o_exitCode = None \<rparr>"


text \<open>
  A streamer with the stream of \<open>p\<close> open, handler 7 subscribed to the output of \<open>p\<close>,
  handler 8 to its exit and handler 9 to \<open>'stdout'\<close>; two outputs of \<open>p\<close>; and calls
  made after the exit.
\<close>

definition demoStreamer :: streamer where
  "demoStreamer = on ''stdout'' 9 (onProcessExit ''p'' 8 (onProcessOutput ''p'' 7
     (startStreaming 0 ''p'' (new_ClaudeOutputStreamer None None))))"

definition demoOutputs :: "ClaudeOutput list" where
  "demoOutputs = [helloOutput,
     \<lparr> o_processId = ''p'', o_type = Stderr, o_data = ''warning'', o_timestamp = 2,
       o_exitCode = None \<rparr>]"


text \<open>What \<open>addToBuffer\<close> keeps of a buffer after a push: the last \<open>maxBufferSize\<close> chunks.\<close>

definition trimBuffer :: "int \<Rightarrow> string list \<Rightarrow> string list" where
  "trimBuffer m buffer =
     (if int (length buffer) > m then drop (nat (int (length buffer) - m)) buffer else buffer)"

section \<open>The process manager (enhanced-claude-manager.ts)\<close>

datatype ProcessStatus = running | completed | failed | killed

text \<open>
  The \<open>error\<close> field of a process record holds the message of the exception that ended
  the command, or the fixed text \<open>'Process killed by user'\<close>.
\<close>

datatype errorText = MessageOf error | KilledByUser

record ClaudeProcess =
  p_id :: string
  p_command :: ClaudeCommand
  p_status :: ProcessStatus
  p_startTime :: nat
  p_endTime :: "nat option"
  p_pid :: "nat option"
  p_exitCode :: "int option"
  p_error :: "errorText option"

datatype Signal = SIGTERM | SIGKILL

text \<open>
  \<open>executeCommand\<close> is asynchronous: it runs up to \<open>await this.spawnClaudeProcess(...)\<close>,
  and its remainder runs when the promise of \<open>spawnClaudeProcess\<close> is settled by one of
  the callbacks of the child (data, exit, error) or by the timeout. One run of
  \<open>executeCommand\<close> that reached the spawn is an \<open>invocation\<close>: the \<open>claudeProcess\<close>
  object it created, the variables \<open>output\<close> and \<open>errorOutput\<close> of the closure, whether
  the timeout is still armed, whether the promise is settled, the signals sent to the
  child and the input written to it, the output handler when the run came through
  \<open>executeStreamingCommand\<close>, and the value the call finally returned (\<open>Inr\<close>) or the
  exception it threw (\<open>Inl\<close>).

  The \<open>claudeProcess\<close> object is shared between the map \<open>processes\<close> and the closure.
  The invocations are therefore a store, and the two maps of the manager hold indices
  into it.
\<close>

record invocation =
  i_command :: ClaudeCommand
  i_process :: ClaudeProcess
  i_output :: string
  i_errorOutput :: string
  i_timer :: bool
  i_settled :: bool
  i_signals :: "Signal list"
  i_stdin :: "string option"
  i_onOutput :: "nat option"
  i_result :: "(error + string) option"

text \<open>
  \<open>uncaught\<close> collects the exceptions that leave a callback of the child: the callback
  stops where the exception is thrown.
\<close>

record manager =
  config :: ClaudeConfig
  processes :: "(string \<times> nat) list"
  childProcesses :: "(string \<times> nat) list"
  outputStreamer :: streamer
  commandSanitizer :: ClaudeCommandSanitizer
  isShuttingDown :: bool
  invocations :: "invocation list"
  uncaught :: "error list"

definition defaultConfig :: ClaudeConfig where
  "defaultConfig = \<lparr> cfg_commandTimeout = 30000, cfg_maxBufferSize = 1000,
     cfg_logLevel = ''info'', cfg_maxRetries = 3, cfg_retryDelay = 1000 \<rparr>"

definition new_EnhancedClaudeManager :: "ClaudeConfig \<Rightarrow> manager" where
  "new_EnhancedClaudeManager cfg = \<lparr>
     config = cfg, processes = [], childProcesses = [],
     outputStreamer = new_ClaudeOutputStreamer (Some (cfg_maxBufferSize cfg)) None,
     commandSanitizer = createClaudeSanitizer,
     isShuttingDown = False, invocations = [], uncaught = [] \<rparr>"

definition updateInvocation :: "nat \<Rightarrow> (invocation \<Rightarrow> invocation) \<Rightarrow> manager \<Rightarrow> manager" where
  "updateInvocation k f s = s\<lparr> invocations := (invocations s)[k := f (invocations s ! k)] \<rparr>"

definition updateProcess :: "nat \<Rightarrow> (ClaudeProcess \<Rightarrow> ClaudeProcess) \<Rightarrow> manager \<Rightarrow> manager" where
  "updateProcess k f s = updateInvocation k (\<lambda>i. i\<lparr> i_process := f (i_process i) \<rparr>) s"

definition getProcess :: "string \<Rightarrow> manager \<Rightarrow> ClaudeProcess option" where
  "getProcess processId s =
     (case map_of (processes s) processId of
        None \<Rightarrow> None
      | Some k \<Rightarrow> Some (i_process (invocations s ! k)))"

definition getActiveProcesses :: "manager \<Rightarrow> ClaudeProcess list" where
  "getActiveProcesses s =
     filter (\<lambda>process. p_status process = running)
       (map (\<lambda>entry. i_process (invocations s ! snd entry)) (processes s))"

text \<open>\<open>command.timeout || this.config.commandTimeout\<close>.\<close>

definition timeoutOf :: "ClaudeCommand \<Rightarrow> manager \<Rightarrow> int" where
  "timeoutOf command s =
     (case c_timeout command of
        None \<Rightarrow> cfg_commandTimeout (config s)
      | Some t \<Rightarrow> if t = 0 then cfg_commandTimeout (config s) else t)"

text \<open>
  The synchronous part of \<open>spawnClaudeProcess\<close> for the invocation \<open>k\<close>: the child is
  spawned and the operating system gives its \<open>pid\<close> (none when the spawn fails), the
  child is entered in \<open>childProcesses\<close>, the timeout is armed, and the input, when there
  is one, is written. \<open>spawn\<close> is taken to return a child; a \<open>spawn\<close> that throws at
  once is not modelled.
\<close>

definition spawnClaudeProcess :: "nat option \<Rightarrow> ClaudeCommand \<Rightarrow> nat \<Rightarrow> manager \<Rightarrow> manager" where
  "spawnClaudeProcess pid command k s =
     (let s1 = updateProcess k (\<lambda>p. p\<lparr> p_pid := pid \<rparr>) s;
          s2 = s1\<lparr> childProcesses := AList.update (c_id command) k (childProcesses s1) \<rparr>
      in updateInvocation k
           (\<lambda>i. i\<lparr> i_timer := True,
                    i_stdin := (case c_input command of
                                  None \<Rightarrow> None
                                | Some text \<Rightarrow> if text = [] then None else Some text) \<rparr>) s2)"

text \<open>
  \<open>executeCommand\<close> up to its \<open>await\<close>. It returns the exception thrown before the
  spawn, or nothing when the invocation now waits for its child; the new invocation has
  the index \<open>length (invocations s)\<close>.
\<close>

definition executeCommand ::
  "nat \<Rightarrow> nat option \<Rightarrow> ClaudeCommand \<Rightarrow> manager \<Rightarrow> error option \<times> manager" where
  "executeCommand now pid command s =
     (if isShuttingDown s then (Some ShutdownError, s)
      else
        (let sanitizationResult = sanitizeClaudeCommand (commandSanitizer s)
               (c_command command) (c_args command) (c_workingDirectory command)
         in if \<not> isValid sanitizationResult
            then (Some (SanitizationError (violations sanitizationResult)), s)
            else if map_of (processes s) (c_id command) \<noteq> None
            then (Some (DuplicateIdError (c_id command)), s)
            else
              (let claudeProcess = \<lparr> p_id = c_id command, p_command = command,
                     p_status = running, p_startTime = now, p_endTime = None,
                     p_pid = None, p_exitCode = None, p_error = None \<rparr>;
                   k = length (invocations s);
                   s1 = s\<lparr> processes := AList.update (c_id command) k (processes s),
                            invocations := invocations s @
                              [\<lparr> i_command = command, i_process = claudeProcess,
                                 i_output = [], i_errorOutput = [], i_timer = False,
                                 i_settled = False, i_signals = [], i_stdin = None,
                                 i_onOutput = None, i_result = None \<rparr>] \<rparr>
               in (None, spawnClaudeProcess pid command k s1))))"

text \<open>
  \<open>executeStreamingCommand\<close> up to the \<open>await\<close>. When \<open>executeCommand\<close> throws at
  once, the \<open>finally\<close> block runs at once; otherwise the invocation remembers the
  handler, for the \<open>finally\<close> block to run when it is settled.
\<close>

definition executeStreamingCommand ::
  "nat \<Rightarrow> nat option \<Rightarrow> ClaudeCommand \<Rightarrow> nat \<Rightarrow> manager \<Rightarrow> error option \<times> manager" where
  "executeStreamingCommand now pid command handler s =
     (if isShuttingDown s then (Some ShutdownError, s)
      else
        (let st1 = startStreaming now (c_id command) (outputStreamer s);
             st2 = onProcessOutput (c_id command) handler st1;
             s1 = s\<lparr> outputStreamer := st2 \<rparr>
         in case executeCommand now pid command s1 of
              (Some e, s2) \<Rightarrow>
                (Some e, s2\<lparr> outputStreamer :=
                   stopStreaming now (c_id command)
                     (offProcessOutput (c_id command) handler (outputStreamer s2)) \<rparr>)
            | (None, s2) \<Rightarrow>
                (None, updateInvocation (length (invocations s1))
                         (\<lambda>i. i\<lparr> i_onOutput := Some handler \<rparr>) s2)))"

text \<open>
  Settling the promise of invocation \<open>k\<close>. A promise is settled once: a later
  \<open>resolve\<close> or \<open>reject\<close> does nothing. The first one runs the rest of
  \<open>executeCommand\<close>, then, for a streaming call, the rest of \<open>executeStreamingCommand\<close>.
\<close>

definition finishExecuteCommand :: "nat \<Rightarrow> nat \<Rightarrow> error + string \<Rightarrow> manager \<Rightarrow> manager" where
  "finishExecuteCommand now k outcome s =
     (let s1 = (case outcome of
                  Inr result \<Rightarrow>
                    updateProcess k (\<lambda>p. p\<lparr> p_status := completed, p_endTime := Some now,
                                            p_exitCode := Some 0 \<rparr>) s
                | Inl e \<Rightarrow>
                    updateProcess k (\<lambda>p. p\<lparr> p_status := failed, p_endTime := Some now,
                                            p_error := Some (MessageOf e),
                                            p_exitCode := Some 1 \<rparr>) s)
      in s1\<lparr> childProcesses :=
               AList.delete (c_id (i_command (invocations s ! k))) (childProcesses s1) \<rparr>)"

definition finishExecuteStreamingCommand ::
  "nat \<Rightarrow> nat \<Rightarrow> nat \<Rightarrow> error + string \<Rightarrow> manager \<Rightarrow> (error + string) \<times> manager" where
  "finishExecuteStreamingCommand now k handler outcome s =
     (let processId = c_id (i_command (invocations s ! k));
          returned = (case outcome of
                        Inl e \<Rightarrow> Inl e
                      | Inr result \<Rightarrow>
                          (let fullOutput = getFullOutput processId (outputStreamer s)
                           in Inr (if fullOutput \<noteq> [] then fullOutput else result)))
      in (returned,
          s\<lparr> outputStreamer :=
               stopStreaming now processId
                 (offProcessOutput processId handler (outputStreamer s)) \<rparr>))"

definition settle :: "nat \<Rightarrow> nat \<Rightarrow> error + string \<Rightarrow> manager \<Rightarrow> manager" where
  "settle now k outcome s =
     (if i_settled (invocations s ! k) then s
      else
        (let s1 = updateInvocation k (\<lambda>i. i\<lparr> i_settled := True \<rparr>) s;
             s2 = finishExecuteCommand now k outcome s1
         in case i_onOutput (invocations s2 ! k) of
              None \<Rightarrow> updateInvocation k (\<lambda>i. i\<lparr> i_result := Some outcome \<rparr>) s2
            | Some handler \<Rightarrow>
                (case finishExecuteStreamingCommand now k handler outcome s2 of
                   (returned, s3) \<Rightarrow>
                     updateInvocation k (\<lambda>i. i\<lparr> i_result := Some returned \<rparr>) s3)))"

text \<open>An exception that leaves a callback is recorded.\<close>

definition escaping :: "error option \<Rightarrow> manager \<Rightarrow> manager" where
  "escaping e s = (case e of None \<Rightarrow> s | Some x \<Rightarrow> s\<lparr> uncaught := uncaught s @ [x] \<rparr>)"

subsection \<open>The callbacks of the child of invocation \<open>k\<close>\<close>

datatype chunk = StdoutData string | StderrData string

definition onStdout :: "nat \<Rightarrow> nat \<Rightarrow> string \<Rightarrow> manager \<Rightarrow> manager" where
  "onStdout now k data s =
     (if k \<ge> length (invocations s) then s
      else
        (let processId = c_id (i_command (invocations s ! k));
             s1 = updateInvocation k (\<lambda>i. i\<lparr> i_output := i_output i @ data \<rparr>) s
         in if isStreaming processId (outputStreamer s1)
            then (case streamOutput \<lparr> o_processId = processId, o_type = Stdout,
                         o_data = data, o_timestamp = now, o_exitCode = None \<rparr>
                         (outputStreamer s1) of
                    (e, st) \<Rightarrow> escaping e (s1\<lparr> outputStreamer := st \<rparr>))
            else s1))"

definition onStderr :: "nat \<Rightarrow> nat \<Rightarrow> string \<Rightarrow> manager \<Rightarrow> manager" where
  "onStderr now k data s =
     (if k \<ge> length (invocations s) then s
      else
        (let processId = c_id (i_command (invocations s ! k));
             s1 = updateInvocation k (\<lambda>i. i\<lparr> i_errorOutput := i_errorOutput i @ data \<rparr>) s
         in if isStreaming processId (outputStreamer s1)
            then (case streamOutput \<lparr> o_processId = processId, o_type = Stderr,
                         o_data = data, o_timestamp = now, o_exitCode = None \<rparr>
                         (outputStreamer s1) of
                    (e, st) \<Rightarrow> escaping e (s1\<lparr> outputStreamer := st \<rparr>))
            else s1))"

definition onData :: "nat \<Rightarrow> nat \<times> chunk \<Rightarrow> manager \<Rightarrow> manager" where
  "onData k arrival s =
     (case snd arrival of
        StdoutData data \<Rightarrow> onStdout (fst arrival) k data s
      | StderrData data \<Rightarrow> onStderr (fst arrival) k data s)"

text \<open>\<open>code\<close> is \<open>null\<close> when a signal ended the child; \<open>code || 0\<close> is then 0.\<close>

definition onExit :: "nat \<Rightarrow> nat \<Rightarrow> int option \<Rightarrow> string option \<Rightarrow> manager \<Rightarrow> manager" where
  "onExit now k code signal s =
     (if k \<ge> length (invocations s) then s
      else
        (let processId = c_id (i_command (invocations s ! k));
             s1 = updateInvocation k (\<lambda>i. i\<lparr> i_timer := False \<rparr>) s;
             s2 = (if isStreaming processId (outputStreamer s1)
                   then s1\<lparr> outputStreamer :=
                          streamProcessExit now processId
                            (case code of None \<Rightarrow> 0 | Some n \<Rightarrow> n) (outputStreamer s1) \<rparr>
                   else s1)
         in if code = Some 0 then settle now k (Inr (i_output (invocations s2 ! k))) s2
            else settle now k
                   (Inl (ProcessExitError code signal (i_errorOutput (invocations s2 ! k)))) s2))"

definition onError :: "nat \<Rightarrow> nat \<Rightarrow> string \<Rightarrow> manager \<Rightarrow> manager" where
  "onError now k message s =
     (if k \<ge> length (invocations s) then s
      else
        (let processId = c_id (i_command (invocations s ! k));
             s1 = updateInvocation k (\<lambda>i. i\<lparr> i_timer := False \<rparr>) s
         in if isStreaming processId (outputStreamer s1)
            then (case streamError now processId message (outputStreamer s1) of
                    (Some e, st) \<Rightarrow> escaping (Some e) (s1\<lparr> outputStreamer := st \<rparr>)
                  | (None, st) \<Rightarrow>
                      settle now k (Inl (SpawnError message)) (s1\<lparr> outputStreamer := st \<rparr>))
            else settle now k (Inl (SpawnError message)) s1))"

text \<open>The timeout fires only while it is armed.\<close>

definition onTimeout :: "nat \<Rightarrow> nat \<Rightarrow> manager \<Rightarrow> manager" where
  "onTimeout now k s =
     (if k \<ge> length (invocations s) \<or> \<not> i_timer (invocations s ! k) then s
      else
        (let s1 = updateInvocation k
                    (\<lambda>i. i\<lparr> i_timer := False, i_signals := i_signals i @ [SIGTERM] \<rparr>) s
         in settle now k
              (Inl (TimeoutError (timeoutOf (i_command (invocations s ! k)) s))) s1))"

subsection \<open>Killing and shutting down\<close>

text \<open>
  The forced kill that \<open>killProcess\<close> schedules five seconds later only sends a second
  signal; it reads and writes nothing of the manager and is left out.
\<close>

definition killProcess :: "nat \<Rightarrow> string \<Rightarrow> manager \<Rightarrow> bool \<times> manager" where
  "killProcess now processId s =
     (case map_of (processes s) processId of
        None \<Rightarrow> (False, s)
      | Some k \<Rightarrow>
          if p_status (i_process (invocations s ! k)) \<noteq> running then (False, s)
          else
            (let s1 = (case map_of (childProcesses s) processId of
                         None \<Rightarrow> s
                       | Some c \<Rightarrow>
                           (updateInvocation c
                              (\<lambda>i. i\<lparr> i_signals := i_signals i @ [SIGTERM] \<rparr>) s)
                           \<lparr> childProcesses := AList.delete processId (childProcesses s) \<rparr>);
                 s2 = updateProcess k
                        (\<lambda>p. p\<lparr> p_status := killed, p_endTime := Some now,
                                 p_exitCode := Some (- 1), p_error := Some KilledByUser \<rparr>) s1
             in (True, s2\<lparr> outputStreamer :=
                            stopStreaming now processId (outputStreamer s2) \<rparr>)))"

definition isReady :: "manager \<Rightarrow> bool" where
  "isReady s = (\<not> isShuttingDown s)"

definition shutdown :: "nat \<Rightarrow> manager \<Rightarrow> manager" where
  "shutdown now s =
     (if isShuttingDown s then s
      else
        (let s1 = s\<lparr> isShuttingDown := True \<rparr>;
             activeProcesses = getActiveProcesses s1;
             s2 = fold (\<lambda>process. \<lambda>m. snd (killProcess now (p_id process) m))
                    activeProcesses s1;
             s3 = s2\<lparr> outputStreamer := shutdown_streamer now (outputStreamer s2) \<rparr>
         in s3\<lparr> processes := [], childProcesses := [] \<rparr>))"

subsection \<open>A manager with one running command\<close>

text \<open>
  \<open>spawned\<close> is the invocation that \<open>executeCommand\<close> leaves behind when it has
  spawned the child. The example is the command \<open>claude\<close> without arguments under the
  id \<open>p1\<close>, given to a new manager.
\<close>

definition spawned :: "nat \<Rightarrow> nat option \<Rightarrow> ClaudeCommand \<Rightarrow> invocation" where
  "spawned now pid c =
     \<lparr> i_command = c,
       i_process = \<lparr> p_id = c_id c, p_command = c, p_status = running, p_startTime = now,
                     p_endTime = None, p_pid = pid, p_exitCode = None, p_error = None \<rparr>,
       i_output = [], i_errorOutput = [], i_timer = True, i_settled = False,
       i_signals = [],
       i_stdin = (case c_input c of None \<Rightarrow> None
                  | Some text \<Rightarrow> if text = [] then None else Some text),
       i_onOutput = None, i_result = None \<rparr>"

definition demoCommand :: ClaudeCommand where
  "demoCommand = \<lparr> c_id = ''p1'', c_command = ''claude'', c_args = [],
                    c_workingDirectory = None, c_timeout = None, c_input = None \<rparr>"

definition demoManager :: manager where
  "demoManager = new_EnhancedClaudeManager defaultConfig"

definition demoRunning :: manager where
  "demoRunning = snd (executeCommand 0 (Some 4242) demoCommand demoManager)"

definition demoStreaming :: manager where
  "demoStreaming = snd (executeStreamingCommand 0 (Some 4242) demoCommand 7 demoManager)"

text \<open>
  Two more commands: one with a path traversal in its argument, and one whose only
  finding is the warning about its working directory.
\<close>

definition traversalCommand :: ClaudeCommand where
  "traversalCommand = \<lparr> c_id = ''p2'', c_command = ''claude'', c_args = [''a..b''],
                         c_workingDirectory = None, c_timeout = None, c_input = None \<rparr>"

definition warnedCommand :: ClaudeCommand where
  "warnedCommand = \<lparr> c_id = ''p3'', c_command = ''claude'', c_args = [],
                      c_workingDirectory = Some ''/etc/foo'', c_timeout = None,
                      c_input = None \<rparr>"

text \<open>
  For a sequence of chunks with their times of arrival: the text of the stdout chunks, and
  the chunks of both kinds in their order of arrival.
\<close>

definition stdoutOf :: "(nat \<times> chunk) list \<Rightarrow> string" where
  "stdoutOf arrivals =
     concat (map (\<lambda>a. case snd a of StdoutData d \<Rightarrow> d | StderrData d \<Rightarrow> []) arrivals)"

definition chunksOf :: "(nat \<times> chunk) list \<Rightarrow> string list" where
  "chunksOf arrivals =
     map (\<lambda>a. case snd a of StdoutData d \<Rightarrow> d | StderrData d \<Rightarrow> d) arrivals"

definition isStdoutData :: "chunk \<Rightarrow> bool" where
  "isStdoutData x = (case x of StdoutData d \<Rightarrow> True | StderrData d \<Rightarrow> False)"

definition stdoutThenStderr :: "(nat \<times> chunk) list" where
  "stdoutThenStderr = [(1, StdoutData ''a''), (2, StderrData ''w'')]"

definition stdoutOnly :: "(nat \<times> chunk) list" where
  "stdoutOnly = [(1, StdoutData ''a''), (2, StdoutData ''b'')]"

section \<open>Properties of the sanitizer\<close>



lemma verdictOK_violate: "verdictOK (violate v r)"
  by (simp add: verdictOK_def violate_def)

lemma verdictOK_warn: "verdictOK r \<Longrightarrow> verdictOK (warn w r)"
  by (simp add: verdictOK_def warn_def)

lemma whenever_keeps: "(\<And>x. P x \<Longrightarrow> P (f x)) \<Longrightarrow> P r \<Longrightarrow> P (whenever b f r)"
  by (simp add: whenever_def)

lemma forEachArg_keeps:
  "(\<And>i arg x. P x \<Longrightarrow> P (body i arg x)) \<Longrightarrow> P r \<Longrightarrow> P (forEachArg body i args r)"
  by (induction args arbitrary: i r) simp_all

lemma fold_keeps: "(\<And>a x. P x \<Longrightarrow> P (f a x)) \<Longrightarrow> P r \<Longrightarrow> P (fold f xs r)"
  by (induction xs arbitrary: r) simp_all

lemmas verdictOK_whenever = whenever_keeps [where P = verdictOK]
lemmas verdictOK_forEachArg = forEachArg_keeps [where P = verdictOK]
lemmas verdictOK_fold = fold_keeps [where P = verdictOK]

lemma verdictOK_wv: "verdictOK r \<Longrightarrow> verdictOK (whenever b (violate v) r)"
  by (simp add: whenever_def verdictOK_violate)

lemma verdictOK_ww: "verdictOK r \<Longrightarrow> verdictOK (whenever b (warn w) r)"
  by (simp add: whenever_def verdictOK_warn)

lemma verdictOK_validateCommandLength:
  "verdictOK r \<Longrightarrow> verdictOK (validateCommandLength command options r)"
proof -
  assume ok: "verdictOK r"
  have "verdictOK (x\<lparr>sanitizedCommand := c\<rparr>) = verdictOK x" for x c
    by (simp add: verdictOK_def)
  with ok show ?thesis
    by (simp add: validateCommandLength_def Let_def verdictOK_violate verdictOK_wv)
qed

lemma verdictOK_validateCommandName:
  "verdictOK r \<Longrightarrow> verdictOK (validateCommandName command options r)"
  unfolding validateCommandName_def Let_def
  by (intro verdictOK_fold verdictOK_wv)

lemma verdictOK_validateArgumentCount:
  "verdictOK r \<Longrightarrow> verdictOK (validateArgumentCount args options r)"
  unfolding validateArgumentCount_def by (rule verdictOK_wv)

lemma verdictOK_validateArgument:
  "verdictOK r \<Longrightarrow> verdictOK (validateArgument options i arg r)"
  unfolding validateArgument_def Let_def by (intro verdictOK_wv)

lemma verdictOK_validateArguments:
  "verdictOK r \<Longrightarrow> verdictOK (validateArguments args options r)"
  unfolding validateArguments_def by (intro verdictOK_forEachArg verdictOK_validateArgument)

lemma verdictOK_validateWorkingDirectory:
  "verdictOK r \<Longrightarrow> verdictOK (validateWorkingDirectory wd options r)"
  by (cases wd) (simp_all add: validateWorkingDirectory_def Let_def verdictOK_violate
        verdictOK_wv verdictOK_ww)

lemma verdictOK_validateClaudeArguments:
  "verdictOK r \<Longrightarrow> verdictOK (validateClaudeArguments args r)"
  unfolding validateClaudeArguments_def Let_def by (intro verdictOK_fold verdictOK_ww)

lemma verdictOK_validateDangerousOperations:
  "verdictOK r \<Longrightarrow> verdictOK (validateDangerousOperations command args wd r)"
  unfolding validateDangerousOperations_def Let_def
  by (intro verdictOK_whenever verdictOK_wv)

lemma verdictOK_validateApiKeySafety:
  "verdictOK r \<Longrightarrow> verdictOK (validateApiKeySafety args r)"
  unfolding validateApiKeySafety_def validateApiKeyArgument_def Let_def
  by (intro verdictOK_forEachArg verdictOK_ww verdictOK_wv)

lemma verdictOK_validatePromptSafety:
  "verdictOK r \<Longrightarrow> verdictOK (validatePromptSafety args r)"
  unfolding validatePromptSafety_def validatePromptArgument_def Let_def
  by (intro verdictOK_forEachArg verdictOK_ww verdictOK_fold)

lemma verdictOK_performClaudeSpecificValidations:
  "verdictOK r \<Longrightarrow> verdictOK (performClaudeSpecificValidations command args wd r)"
  unfolding performClaudeSpecificValidations_def Let_def
  by (intro verdictOK_validatePromptSafety verdictOK_validateApiKeySafety
        verdictOK_validateDangerousOperations verdictOK_whenever verdictOK_validateClaudeArguments)

lemma verdictOK_sanitizeCommand:
  "verdictOK (sanitizeCommand self command args wd options)"
  unfolding sanitizeCommand_def Let_def
  by (intro verdictOK_performClaudeSpecificValidations verdictOK_validateWorkingDirectory
        verdictOK_validateArguments verdictOK_validateArgumentCount
        verdictOK_validateCommandName verdictOK_validateCommandLength)
     (simp add: verdictOK_def)



lemma hasTooLong_violate:
  "hasTooLong i n m (violate v r) = (hasTooLong i n m r \<or> v = ArgumentTooLong i n m)"
  by (auto simp: hasTooLong_def violate_def)

lemma hasTooLong_warn: "hasTooLong i n m (warn w r) = hasTooLong i n m r"
  by (simp add: hasTooLong_def warn_def)

lemma hasTooLong_wv:
  "v \<noteq> ArgumentTooLong i n m \<Longrightarrow> hasTooLong i n m r = c
     \<Longrightarrow> hasTooLong i n m (whenever b (violate v) r) = c"
  by (simp add: whenever_def hasTooLong_violate)

lemma hasTooLong_ww:
  "hasTooLong i n m r = c \<Longrightarrow> hasTooLong i n m (whenever b (warn w) r) = c"
  by (simp add: whenever_def hasTooLong_warn)

lemmas hasTooLong_whenever = whenever_keeps [where P = "\<lambda>x. hasTooLong i n m x = c" for i n m c]
lemmas hasTooLong_forEachArg = forEachArg_keeps [where P = "\<lambda>x. hasTooLong i n m x = c" for i n m c]
lemmas hasTooLong_fold = fold_keeps [where P = "\<lambda>x. hasTooLong i n m x = c" for i n m c]

lemma hasTooLong_validateCommandLength:
  "hasTooLong i n m (validateCommandLength command options r) = hasTooLong i n m r"
proof -
  have "hasTooLong i n m (x\<lparr>sanitizedCommand := c\<rparr>) = hasTooLong i n m x" for x c
    by (simp add: hasTooLong_def)
  then show ?thesis
    by (simp add: validateCommandLength_def Let_def hasTooLong_violate hasTooLong_wv)
qed

lemma hasTooLong_validateCommandName:
  "hasTooLong i n m (validateCommandName command options r) = hasTooLong i n m r"
  unfolding validateCommandName_def Let_def
  by (intro hasTooLong_fold hasTooLong_wv) simp_all

lemma hasTooLong_validateArgumentCount:
  "hasTooLong i n m (validateArgumentCount args options r) = hasTooLong i n m r"
  unfolding validateArgumentCount_def by (intro hasTooLong_wv) simp_all

lemma hasTooLong_validateArgument:
  "hasTooLong i n m (validateArgument options j arg r) =
     (hasTooLong i n m r \<or>
      (i = j \<and> n = length arg \<and> m = maxArgumentLength options \<and> int n > m))"
  by (auto simp: validateArgument_def Let_def whenever_def hasTooLong_violate)

lemma hasTooLong_forEach_validateArgument:
  "hasTooLong i n m (forEachArg (validateArgument options) j args r) =
     (hasTooLong i n m r \<or>
      (j \<le> i \<and> i < j + length args \<and> n = length (args ! (i - j))
       \<and> m = maxArgumentLength options \<and> int n > m))"
proof (induction args arbitrary: j r)
  case Nil
  then show ?case by auto
next
  case (Cons a as)
  have step: "hasTooLong i n m (forEachArg (validateArgument options) j (a # as) r) =
     ((hasTooLong i n m r \<or>
       (i = j \<and> n = length a \<and> m = maxArgumentLength options \<and> int n > m)) \<or>
      (Suc j \<le> i \<and> i < Suc j + length as \<and> n = length (as ! (i - Suc j))
       \<and> m = maxArgumentLength options \<and> int n > m))"
    by (simp only: forEachArg.simps Cons.IH hasTooLong_validateArgument)
  show ?case
  proof (cases "i = j")
    case True
    then show ?thesis unfolding step by auto
  next
    case False
    have "(a # as) ! (i - j) = as ! (i - Suc j)" if "j \<le> i"
    proof -
      from that False have "i - j = Suc (i - Suc j)" by arith
      then show ?thesis by simp
    qed
    with False show ?thesis unfolding step by auto
  qed
qed

lemma hasTooLong_validateWorkingDirectory:
  "hasTooLong i n m (validateWorkingDirectory wd options r) = hasTooLong i n m r"
  by (cases wd) (simp_all add: validateWorkingDirectory_def Let_def hasTooLong_violate
        hasTooLong_wv hasTooLong_ww)

lemma hasTooLong_validateClaudeArguments:
  "hasTooLong i n m (validateClaudeArguments args r) = hasTooLong i n m r"
  unfolding validateClaudeArguments_def Let_def
  by (intro hasTooLong_fold hasTooLong_ww) simp_all

lemma hasTooLong_validateDangerousOperations:
  "hasTooLong i n m (validateDangerousOperations command args wd r) = hasTooLong i n m r"
  unfolding validateDangerousOperations_def Let_def
  by (intro hasTooLong_whenever hasTooLong_wv) simp_all

lemma hasTooLong_validateApiKeySafety:
  "hasTooLong i n m (validateApiKeySafety args r) = hasTooLong i n m r"
  unfolding validateApiKeySafety_def validateApiKeyArgument_def Let_def
  by (intro hasTooLong_forEachArg hasTooLong_ww hasTooLong_wv) simp_all

lemma hasTooLong_validatePromptSafety:
  "hasTooLong i n m (validatePromptSafety args r) = hasTooLong i n m r"
  unfolding validatePromptSafety_def validatePromptArgument_def Let_def
  by (intro hasTooLong_forEachArg hasTooLong_ww hasTooLong_fold) simp_all

lemma hasTooLong_performClaudeSpecificValidations:
  "hasTooLong i n m (performClaudeSpecificValidations command args wd r) = hasTooLong i n m r"
  unfolding performClaudeSpecificValidations_def Let_def
  by (simp add: hasTooLong_validatePromptSafety hasTooLong_validateApiKeySafety
        hasTooLong_validateDangerousOperations whenever_def hasTooLong_validateClaudeArguments)

lemma hasTooLong_sanitizeCommand:
  "hasTooLong i n m (sanitizeCommand self command args wd options) =
     (i < length args \<and> n = length (args ! i)
      \<and> m = maxArgumentLength (spread (defaultOptions self) options) \<and> int n > m)"
  unfolding sanitizeCommand_def Let_def
  by (simp add: hasTooLong_performClaudeSpecificValidations hasTooLong_validateWorkingDirectory
        validateArguments_def hasTooLong_forEach_validateArgument
        hasTooLong_validateArgumentCount hasTooLong_validateCommandName
        hasTooLong_validateCommandLength)
     (simp add: hasTooLong_def)

text \<open>
  Claim C9. For an argument at index \<open>i\<close>: when its length is exactly the merged
  option \<open>maxArgumentLength\<close>, the verdict lists no length violation for it; when its
  length is \<open>maxArgumentLength + 1\<close>, the verdict lists the length violation for it and
  is invalid. This holds for every sanitizer, command, argument list, working directory
  and option override.
\<close>

theorem argument_length_boundary:
  assumes "i < length args"
  shows "(int (length (args ! i)) = maxArgumentLength (spread (defaultOptions self) options)
           \<longrightarrow> (\<forall>n m. ArgumentTooLong i n m
                  \<notin> set (violations (sanitizeCommand self command args wd options))))
       \<and> (int (length (args ! i)) = maxArgumentLength (spread (defaultOptions self) options) + 1
           \<longrightarrow> ArgumentTooLong i (length (args ! i))
                  (maxArgumentLength (spread (defaultOptions self) options))
                  \<in> set (violations (sanitizeCommand self command args wd options))
               \<and> \<not> isValid (sanitizeCommand self command args wd options))"
proof -
  let ?res = "sanitizeCommand self command args wd options"
  let ?max = "maxArgumentLength (spread (defaultOptions self) options)"
  have char: "ArgumentTooLong i n m \<in> set (violations ?res) \<longleftrightarrow>
      (n = length (args ! i) \<and> m = ?max \<and> int n > m)" for n m
    using assms hasTooLong_sanitizeCommand [of i n m self command args wd options]
    by (simp add: hasTooLong_def)
  have ok: "isValid ?res = (violations ?res = [])"
    using verdictOK_sanitizeCommand [of self command args wd options]
    by (simp add: verdictOK_def)
  show ?thesis
  proof (intro conjI impI allI)
    fix n m
    assume "int (length (args ! i)) = ?max"
    then show "ArgumentTooLong i n m \<notin> set (violations ?res)"
      by (auto simp: char)
  next
    assume over: "int (length (args ! i)) = ?max + 1"
    then show "ArgumentTooLong i (length (args ! i)) ?max \<in> set (violations ?res)"
      by (simp add: char)
    then have "violations ?res \<noteq> []" by auto
    then show "\<not> isValid ?res" by (simp add: ok)
  qed
qed


text \<open>
  With the bound set to 3, \<open>''abc''\<close> is at the boundary and \<open>''abcd''\<close> one over it.
\<close>

theorem argument_length_boundary_witness:
  "(0::nat) < length [''abc'', ''abcd''] \<and> (1::nat) < length [''abc'', ''abcd'']
   \<and> int (length ([''abc'', ''abcd''] ! 0))
       = maxArgumentLength (spread (defaultOptions createClaudeSanitizer)
           (noOptions\<lparr>maxArgumentLength_opt := Some 3\<rparr>))
   \<and> int (length ([''abc'', ''abcd''] ! 1))
       = maxArgumentLength (spread (defaultOptions createClaudeSanitizer)
           (noOptions\<lparr>maxArgumentLength_opt := Some 3\<rparr>)) + 1
   \<and> (\<forall>n m. ArgumentTooLong 0 n m \<notin> set (violations
         (sanitizeCommand createClaudeSanitizer ''echo'' [''abc'', ''abcd''] None
            (noOptions\<lparr>maxArgumentLength_opt := Some 3\<rparr>))))
   \<and> ArgumentTooLong 1 (length ''abcd'') 3 \<in> set (violations
         (sanitizeCommand createClaudeSanitizer ''echo'' [''abc'', ''abcd''] None
            (noOptions\<lparr>maxArgumentLength_opt := Some 3\<rparr>)))
   \<and> \<not> isValid (sanitizeCommand createClaudeSanitizer ''echo'' [''abc'', ''abcd''] None
            (noOptions\<lparr>maxArgumentLength_opt := Some 3\<rparr>))"
  using argument_length_boundary [of 0 "[''abc'', ''abcd'']" createClaudeSanitizer
          "noOptions\<lparr>maxArgumentLength_opt := Some 3\<rparr>" "''echo''" None]
        argument_length_boundary [of 1 "[''abc'', ''abcd'']" createClaudeSanitizer
          "noOptions\<lparr>maxArgumentLength_opt := Some 3\<rparr>" "''echo''" None]
  by (simp add: spread_def noOptions_def)

text \<open>An argument at the boundary with nothing else wrong gives a valid verdict.\<close>

lemma boundary_argument_valid:
  "isValid (sanitizeCommand createClaudeSanitizer ''echo'' [''abc''] None
      (noOptions\<lparr>maxArgumentLength_opt := Some 3\<rparr>))"
  by code_simp

text \<open>
  Claim C3. For every sanitizer, command, argument list, working directory and option
  override, the verdict's \<open>isValid\<close> flag is true exactly when its list of violations
  is empty; and pushing a warning, the only statement that writes the warnings, changes
  neither the flag nor the violations.
\<close>

theorem verdict_valid_iff_no_violations:
  "isValid (sanitizeCommand self command args wd options)
     = (violations (sanitizeCommand self command args wd options) = [])
   \<and> isValid (warn w r) = isValid r \<and> violations (warn w r) = violations r"
  using verdictOK_sanitizeCommand [of self command args wd options]
  by (simp add: verdictOK_def warn_def)

text \<open>
  Claim C4 says that an invocation having the argument \<open>rm -rf /etc\<close> is rejected. The
  dangerous-operation check looks at the command name, not at the arguments, and looks
  for \<open>/etc/\<close> with its closing slash: under the command \<open>claude\<close> the verdict is valid.
\<close>

theorem rm_rf_argument_counterexample:
  "''rm -rf /etc'' \<in> set [''rm -rf /etc'']
   \<and> isValid (sanitizeClaudeCommand createClaudeSanitizer ''claude'' [''rm -rf /etc''] None)"
  by code_simp


lemma violation_kept_violate:
  "v \<in> set (violations r) \<Longrightarrow> v \<in> set (violations (violate v' r))"
  by (simp add: violate_def)

lemma violation_kept_warn:
  "v \<in> set (violations r) \<Longrightarrow> v \<in> set (violations (warn w r))"
  by (simp add: warn_def)

lemma violation_kept_wv:
  "v \<in> set (violations r) \<Longrightarrow> v \<in> set (violations (whenever b (violate v') r))"
  by (simp add: whenever_def violation_kept_violate)

lemma violation_kept_ww:
  "v \<in> set (violations r) \<Longrightarrow> v \<in> set (violations (whenever b (warn w) r))"
  by (simp add: whenever_def violation_kept_warn)

lemmas violation_kept_forEachArg =
  forEachArg_keeps [where P = "\<lambda>x. v \<in> set (violations x)" for v]
lemmas violation_kept_fold =
  fold_keeps [where P = "\<lambda>x. v \<in> set (violations x)" for v]

lemma violation_kept_validateApiKeySafety:
  "v \<in> set (violations r) \<Longrightarrow> v \<in> set (violations (validateApiKeySafety args r))"
  unfolding validateApiKeySafety_def validateApiKeyArgument_def Let_def
  by (intro violation_kept_forEachArg violation_kept_ww violation_kept_wv)

lemma violation_kept_validatePromptSafety:
  "v \<in> set (violations r) \<Longrightarrow> v \<in> set (violations (validatePromptSafety args r))"
  unfolding validatePromptSafety_def validatePromptArgument_def Let_def
  by (intro violation_kept_forEachArg violation_kept_ww violation_kept_fold)

lemma validateDangerousOperations_rejects:
  assumes "list_ex (\<lambda>dangerous. dangerous = toLowerCase command)
             [''rm'', ''del'', ''delete'', ''format'', ''mkfs'', ''dd'']"
      and "list_ex (\<lambda>arg. includes_str arg ''/etc/'' \<or> includes_str arg ''/root/''
             \<or> includes_str arg ''/sys/'' \<or> includes_str arg ''/boot/''
             \<or> includes_str arg ''/dev/'') args"
  shows "DangerousFileOperation
           \<in> set (violations (validateDangerousOperations command args wd r))"
  using assms
  by (simp only: validateDangerousOperations_def whenever_def Let_def if_True simp_thms)
     (simp add: violate_def)

text \<open>
  Claim C4, amended. An invocation is rejected, by every sanitizer and under every option
  override, when its command name in lower case is one of \<open>rm\<close>, \<open>del\<close>, \<open>delete\<close>,
  \<open>format\<close>, \<open>mkfs\<close>, \<open>dd\<close> and some argument contains one of \<open>/etc/\<close>, \<open>/root/\<close>,
  \<open>/sys/\<close>, \<open>/boot/\<close>, \<open>/dev/\<close>.
\<close>

theorem dangerous_command_on_sensitive_path_rejected:
  assumes "list_ex (\<lambda>dangerous. dangerous = toLowerCase command)
             [''rm'', ''del'', ''delete'', ''format'', ''mkfs'', ''dd'']"
      and "list_ex (\<lambda>arg. includes_str arg ''/etc/'' \<or> includes_str arg ''/root/''
             \<or> includes_str arg ''/sys/'' \<or> includes_str arg ''/boot/''
             \<or> includes_str arg ''/dev/'') args"
  shows "\<not> isValid (sanitizeCommand self command args wd options)"
proof -
  let ?res = "sanitizeCommand self command args wd options"
  have "DangerousFileOperation \<in> set (violations ?res)"
    unfolding sanitizeCommand_def performClaudeSpecificValidations_def Let_def
    by (intro violation_kept_validatePromptSafety violation_kept_validateApiKeySafety
          validateDangerousOperations_rejects assms)
  then have "violations ?res \<noteq> []" by auto
  moreover have "isValid ?res = (violations ?res = [])"
    using verdictOK_sanitizeCommand [of self command args wd options]
    by (simp add: verdictOK_def)
  ultimately show ?thesis by simp
qed

theorem dangerous_command_on_sensitive_path_rejected_witness:
  "list_ex (\<lambda>dangerous. dangerous = toLowerCase ''rm'')
     [''rm'', ''del'', ''delete'', ''format'', ''mkfs'', ''dd'']
   \<and> list_ex (\<lambda>arg. includes_str arg ''/etc/'' \<or> includes_str arg ''/root/''
         \<or> includes_str arg ''/sys/'' \<or> includes_str arg ''/boot/''
         \<or> includes_str arg ''/dev/'') [''-rf'', ''/etc/'']
   \<and> \<not> isValid (sanitizeCommand createClaudeSanitizer ''rm'' [''-rf'', ''/etc/''] None
           claudeOptions)"
proof -
  have c: "list_ex (\<lambda>dangerous. dangerous = toLowerCase ''rm'')
     [''rm'', ''del'', ''delete'', ''format'', ''mkfs'', ''dd'']"
    by (simp add: toLowerCase_def lowerChar_def between_def codeUnit_def)
  have a: "list_ex (\<lambda>arg. includes_str arg ''/etc/'' \<or> includes_str arg ''/root/''
         \<or> includes_str arg ''/sys/'' \<or> includes_str arg ''/boot/''
         \<or> includes_str arg ''/dev/'') [''-rf'', ''/etc/'']"
    by (simp add: startsWith_def)
  from dangerous_command_on_sensitive_path_rejected [OF c a] c a show ?thesis by blast
qed


section \<open>Properties of the output streamer\<close>


lemma deliver_fields [simp]:
  "activeStreams (deliver n p s) = activeStreams s"
  "buffers (deliver n p s) = buffers s"
  "listeners (deliver n p s) = listeners s"
  "maxBufferSize (deliver n p s) = maxBufferSize s"
  "eventNamingPattern (deliver n p s) = eventNamingPattern s"
  "delivered (deliver n p s) = delivered s @ map (\<lambda>handler. (handler, p)) (listenersOf n s)"
  by (simp_all add: deliver_def)

lemma listenersOf_update [simp]:
  "listenersOf n (activeStreams_update f s) = listenersOf n s"
  "listenersOf n (buffers_update g s) = listenersOf n s"
  "listenersOf n (delivered_update h s) = listenersOf n s"
  by (simp_all add: listenersOf_def)

lemma listenersOf_deliver [simp]: "listenersOf n (deliver n' p s) = listenersOf n s"
  by (simp add: listenersOf_def)

lemma addToBuffer_fields [simp]:
  "activeStreams (addToBuffer pid d s) = activeStreams s"
  "listeners (addToBuffer pid d s) = listeners s"
  "maxBufferSize (addToBuffer pid d s) = maxBufferSize s"
  "eventNamingPattern (addToBuffer pid d s) = eventNamingPattern s"
  "delivered (addToBuffer pid d s) = delivered s"
  by (simp_all add: addToBuffer_def Let_def split: option.splits)

lemma listenersOf_addToBuffer [simp]: "listenersOf n (addToBuffer pid d s) = listenersOf n s"
  by (simp add: listenersOf_def)

lemma formatProcessEvent_deliver [simp]:
  "formatProcessEvent t pid (deliver n p s) = formatProcessEvent t pid s"
  "formatProcessEvent t pid (addToBuffer pid' d s) = formatProcessEvent t pid s"
  by (simp_all add: formatProcessEvent_def)

lemma formatProcessEvent_not_error [simp]: "formatProcessEvent t pid s \<noteq> ''error''"
proof
  assume eq: "formatProcessEvent t pid s = ''error''"
  have "CHR '':'' \<in> set (formatProcessEvent t pid s) \<or> CHR ''-'' \<in> set (formatProcessEvent t pid s)"
    by (simp add: formatProcessEvent_def)
  then show False unfolding eq by simp
qed

lemma emit_formatProcessEvent:
  "emit (formatProcessEvent t pid s') ev s
     = (None, deliver (formatProcessEvent t pid s') (StreamEvent ev) s)"
  by (simp add: emit_def)

lemma emit_literal:
  "emit ''output'' ev s = (None, deliver ''output'' (StreamEvent ev) s)"
  "emit ''exit'' ev s = (None, deliver ''exit'' (StreamEvent ev) s)"
  "emit ''stdout'' ev s = (None, deliver ''stdout'' (StreamEvent ev) s)"
  "emit ''stderr'' ev s = (None, deliver ''stderr'' (StreamEvent ev) s)"
  by (simp_all add: emit_def)

lemma stopStreaming_fields [simp]:
  "buffers (stopStreaming now pid s) = buffers s"
  "listeners (stopStreaming now pid s) = listeners s"
  "maxBufferSize (stopStreaming now pid s) = maxBufferSize s"
  "eventNamingPattern (stopStreaming now pid s) = eventNamingPattern s"
  by (simp_all add: stopStreaming_def)

lemma activeStreams_stopStreaming [simp]:
  "activeStreams (stopStreaming now pid s) = AList.delete pid (activeStreams s)"
  by (simp add: stopStreaming_def map_of_eq_None_iff)


lemma isStreaming_stopStreaming [simp]: "\<not> isStreaming pid (stopStreaming now pid s)"
  by (simp add: isStreaming_def delete_conv')

lemma getFullOutput_stopStreaming [simp]:
  "getFullOutput pid' (stopStreaming now pid s) = getFullOutput pid' s"
  by (simp add: getFullOutput_def)

text \<open>
  Claim C5, amended. For every process id with an open stream, \<open>stopStreaming\<close> closes
  the stream (the id leaves \<open>activeStreams\<close> and \<open>isStreaming\<close> is false) and keeps the
  buffers as they are: a following \<open>getFullOutput\<close> for that id returns what it returned
  before the stop.
\<close>

theorem stopStreaming_keeps_buffer:
  assumes "map_of (activeStreams s) processId \<noteq> None"
  shows "map_of (activeStreams (stopStreaming now processId s)) processId = None
       \<and> \<not> isStreaming processId (stopStreaming now processId s)
       \<and> buffers (stopStreaming now processId s) = buffers s
       \<and> getFullOutput processId (stopStreaming now processId s) = getFullOutput processId s"
  by (simp add: delete_conv')

text \<open>
  The stream of \<open>p\<close> after the chunk \<open>hello\<close>: the stop closes it, and \<open>getFullOutput\<close>
  returns \<open>hello\<close> before and after.
\<close>

theorem stopStreaming_keeps_buffer_witness:
  "map_of (activeStreams (snd (streamOutput helloOutput
       (startStreaming 0 ''p'' (new_ClaudeOutputStreamer None None))))) ''p'' \<noteq> None
   \<and> getFullOutput ''p'' (snd (streamOutput helloOutput
       (startStreaming 0 ''p'' (new_ClaudeOutputStreamer None None)))) = ''hello''
   \<and> map_of (activeStreams (stopStreaming 2 ''p'' (snd (streamOutput helloOutput
        (startStreaming 0 ''p'' (new_ClaudeOutputStreamer None None)))))) ''p'' = None
   \<and> \<not> isStreaming ''p'' (stopStreaming 2 ''p'' (snd (streamOutput helloOutput
        (startStreaming 0 ''p'' (new_ClaudeOutputStreamer None None)))))
   \<and> getFullOutput ''p'' (stopStreaming 2 ''p'' (snd (streamOutput helloOutput
        (startStreaming 0 ''p'' (new_ClaudeOutputStreamer None None))))) = ''hello''"
proof -
  let ?s = "snd (streamOutput helloOutput
       (startStreaming 0 ''p'' (new_ClaudeOutputStreamer None None)))"
  have h: "map_of (activeStreams ?s) ''p'' \<noteq> None"
    by (simp add: helloOutput_def startStreaming_def new_ClaudeOutputStreamer_def
        streamOutput_def Let_def emit_def typeName_def update_conv')
  have g: "getFullOutput ''p'' ?s = ''hello''"
    by (simp add: helloOutput_def startStreaming_def new_ClaudeOutputStreamer_def
        streamOutput_def Let_def emit_def typeName_def addToBuffer_def getFullOutput_def
        update_conv')
  from stopStreaming_keeps_buffer [OF h, of 2] h g show ?thesis by simp
qed

text \<open>
  Claim C5 says that after \<open>stopStreaming\<close> the buffer entry is released and
  \<open>getFullOutput\<close> returns the empty string. \<open>stopStreaming\<close> deletes the id from
  \<open>activeStreams\<close> only: after one chunk \<open>hello\<close> and the stop, \<open>getFullOutput\<close> still
  returns \<open>hello\<close>.
\<close>

theorem stopStreaming_releases_buffer_counterexample:
  "map_of (activeStreams (snd (streamOutput helloOutput
       (startStreaming 0 ''p'' (new_ClaudeOutputStreamer None None))))) ''p'' \<noteq> None
   \<and> getFullOutput ''p'' (stopStreaming 2 ''p'' (snd (streamOutput helloOutput
       (startStreaming 0 ''p'' (new_ClaudeOutputStreamer None None))))) = ''hello''
   \<and> ''hello'' \<noteq> []"
  by (simp add: helloOutput_def startStreaming_def new_ClaudeOutputStreamer_def
        streamOutput_def Let_def emit_def typeName_def addToBuffer_def getFullOutput_def
        update_conv')


lemma listenersOf_stopStreaming [simp]:
  "listenersOf n (stopStreaming now pid s) = listenersOf n s"
  by (simp add: listenersOf_def)

lemma formatProcessEvent_stopStreaming [simp]:
  "formatProcessEvent t pid (stopStreaming now pid' s) = formatProcessEvent t pid s"
  by (simp add: formatProcessEvent_def)

lemma observed_addToBuffer [simp]: "observed h (addToBuffer pid d s) = observed h s"
  by (simp add: observed_def)

lemma observed_deliver:
  "observed h (deliver n p s) =
     observed h s @ map (\<lambda>x. p) (filter (\<lambda>x. x = h) (listenersOf n s))"
  by (simp add: observed_def filter_map comp_def)

lemma listenersOf_registered_once:
  assumes "filter (\<lambda>l. snd l = h) (listeners s) = [(name, h)]"
  shows "filter (\<lambda>x. x = h) (listenersOf n s) = (if n = name then [h] else [])"
proof -
  have "filter (\<lambda>x. x = h) (listenersOf n s)
      = map snd (filter (\<lambda>l. fst l = n) (filter (\<lambda>l. snd l = h) (listeners s)))"
    by (simp add: listenersOf_def filter_map comp_def conj_commute)
  then show ?thesis by (simp add: assms)
qed

lemma streamOutput_active:
  assumes "map_of (activeStreams s) (o_processId output) = Some True"
      and "o_type output = Stdout \<or> o_type output = Stderr"
  shows "streamOutput output s =
     (None,
      deliver (formatProcessEvent (typeName (o_type output)) (o_processId output) s)
        (StreamEvent output)
        (deliver (typeName (o_type output)) (StreamEvent output)
           (deliver (formatProcessEvent ''output'' (o_processId output) s) (StreamEvent output)
              (deliver ''output'' (StreamEvent output)
                 (addToBuffer (o_processId output) (o_data output) s)))))"
  using assms by (auto simp: streamOutput_def Let_def emit_def typeName_def)




lemma streamOutput_keeps:
  assumes "map_of (activeStreams s) (o_processId output) = Some True"
      and "o_type output = Stdout \<or> o_type output = Stderr"
  shows "activeStreams (snd (streamOutput output s)) = activeStreams s"
    and "listeners (snd (streamOutput output s)) = listeners s"
    and "eventNamingPattern (snd (streamOutput output s)) = eventNamingPattern s"
  using assms by (simp_all add: streamOutput_active)

lemma observed_streamOutput:
  assumes "map_of (activeStreams s) (o_processId output) = Some True"
      and "o_type output = Stdout \<or> o_type output = Stderr"
      and "filter (\<lambda>l. snd l = h) (listeners s)
             = [(formatProcessEvent ''output'' (o_processId output) s, h)]"
  shows "observed h (snd (streamOutput output s)) = observed h s @ [StreamEvent output]"
proof -
  note once = listenersOf_registered_once [where s = s, OF assms(3)]
  have names: "''output'' \<noteq> formatProcessEvent ''output'' (o_processId output) s"
    "typeName (o_type output) \<noteq> formatProcessEvent ''output'' (o_processId output) s"
    "formatProcessEvent (typeName (o_type output)) (o_processId output) s
       \<noteq> formatProcessEvent ''output'' (o_processId output) s"
    using assms(2) by (auto simp: formatProcessEvent_def typeName_def)
  show ?thesis
    using names
    by (simp add: streamOutput_active [OF assms(1,2)] observed_deliver once)
qed

lemma observed_streamOutputs:
  assumes "map_of (activeStreams s) pid = Some True"
      and "\<forall>output \<in> set outputs.
             o_processId output = pid \<and> (o_type output = Stdout \<or> o_type output = Stderr)"
      and "filter (\<lambda>l. snd l = h) (listeners s) = [(formatProcessEvent ''output'' pid s, h)]"
  shows "observed h (streamOutputs outputs s) = observed h s @ map StreamEvent outputs
       \<and> map_of (activeStreams (streamOutputs outputs s)) pid = Some True"
  using assms
proof (induction outputs arbitrary: s)
  case Nil
  then show ?case by (simp add: streamOutputs_def)
next
  case (Cons out outputs)
  let ?s' = "snd (streamOutput out s)"
  from Cons.prems have a: "map_of (activeStreams s) (o_processId out) = Some True"
    and ty: "o_type out = Stdout \<or> o_type out = Stderr"
    and reg: "filter (\<lambda>l. snd l = h) (listeners s)
                = [(formatProcessEvent ''output'' (o_processId out) s, h)]"
    and pid: "o_processId out = pid"
    by auto
  have keep: "activeStreams ?s' = activeStreams s" "listeners ?s' = listeners s"
    "formatProcessEvent ''output'' pid ?s' = formatProcessEvent ''output'' pid s"
    using streamOutput_keeps [OF a ty] by (simp_all add: formatProcessEvent_def)
  have "observed h (streamOutputs outputs ?s') = observed h ?s' @ map StreamEvent outputs
      \<and> map_of (activeStreams (streamOutputs outputs ?s')) pid = Some True"
    using Cons.prems by (intro Cons.IH) (simp_all add: keep)
  moreover have "streamOutputs (out # outputs) s = streamOutputs outputs ?s'"
    by (simp add: streamOutputs_def)
  ultimately show ?case
    by (simp add: observed_streamOutput [OF a ty reg])
qed



lemma eventsOf_deliver:
  "eventsOf pid (deliver n p s) =
     eventsOf pid s @ (if isEventOf pid p then map (\<lambda>h. (h, p)) (listenersOf n s) else [])"
  by (simp add: eventsOf_def filter_map comp_def)

lemma eventsOf_update [simp]:
  "eventsOf pid (activeStreams_update f s) = eventsOf pid s"
  "eventsOf pid (buffers_update g s) = eventsOf pid s"
  "eventsOf pid (listeners_update h s) = eventsOf pid s"
  by (simp_all add: eventsOf_def)

lemma eventsOf_addToBuffer [simp]: "eventsOf pid (addToBuffer p d s) = eventsOf pid s"
  by (simp add: eventsOf_def)

lemma eventsOf_stopStreaming [simp]: "eventsOf pid (stopStreaming now p s) = eventsOf pid s"
  by (simp add: stopStreaming_def eventsOf_deliver isEventOf_def)

lemma eventsOf_startStreaming [simp]: "eventsOf pid (startStreaming now p s) = eventsOf pid s"
  by (simp add: startStreaming_def eventsOf_deliver isEventOf_def)


lemma closed_stopStreaming:
  "map_of (activeStreams s) pid \<noteq> Some True
     \<Longrightarrow> map_of (activeStreams (stopStreaming now p s)) pid \<noteq> Some True"
  by (simp add: delete_conv')













lemma demoStreamer_state:
  "demoStreamer = \<lparr> activeStreams = [(''p'', True)], buffers = [(''p'', [])],
     maxBufferSize = 1000, eventNamingPattern = colon,
     listeners = [(''output:p'', 7), (''exit:p'', 8), (''stdout'', 9)], delivered = [] \<rparr>"
  by (simp add: demoStreamer_def onProcessExit_def onProcessOutput_def on_def
        formatProcessEvent_def startStreaming_def new_ClaudeOutputStreamer_def deliver_def
        listenersOf_def)


text \<open>
  All events delivered for \<open>p\<close> in the example, with the handler called: the two outputs,
  then the exit.
\<close>

lemma demo_trace:
  "eventsOf ''p'' (streamProcessExit 3 ''p'' 0 (streamOutputs demoOutputs demoStreamer))
     = [(7, StreamEvent helloOutput), (9, StreamEvent helloOutput),
        (7, StreamEvent (demoOutputs ! 1)), (8, StreamEvent (exitEvent 3 ''p'' 0))]"
  by (simp add: demoStreamer_state demoOutputs_def helloOutput_def streamOutputs_def
        streamOutput_def Let_def emit_def typeName_def addToBuffer_def update_conv'
        deliver_def listenersOf_def formatProcessEvent_def streamProcessExit_def
        stopStreaming_def eventsOf_def isEventOf_def exitEvent_def)


section \<open>Properties of the process manager\<close>


lemma updateInvocation_fields [simp]:
  "invocations (updateInvocation k f s) = (invocations s)[k := f (invocations s ! k)]"
  "processes (updateInvocation k f s) = processes s"
  "childProcesses (updateInvocation k f s) = childProcesses s"
  "outputStreamer (updateInvocation k f s) = outputStreamer s"
  "commandSanitizer (updateInvocation k f s) = commandSanitizer s"
  "isShuttingDown (updateInvocation k f s) = isShuttingDown s"
  "config (updateInvocation k f s) = config s"
  "uncaught (updateInvocation k f s) = uncaught s"
  by (simp_all add: updateInvocation_def)

lemma updateProcess_fields [simp]:
  "invocations (updateProcess k f s) =
     (invocations s)[k := (invocations s ! k)\<lparr> i_process := f (i_process (invocations s ! k)) \<rparr>]"
  "processes (updateProcess k f s) = processes s"
  "childProcesses (updateProcess k f s) = childProcesses s"
  "outputStreamer (updateProcess k f s) = outputStreamer s"
  "commandSanitizer (updateProcess k f s) = commandSanitizer s"
  "isShuttingDown (updateProcess k f s) = isShuttingDown s"
  "config (updateProcess k f s) = config s"
  "uncaught (updateProcess k f s) = uncaught s"
  by (simp_all add: updateProcess_def)

lemma escaping_fields [simp]:
  "invocations (escaping e s) = invocations s"
  "processes (escaping e s) = processes s"
  "childProcesses (escaping e s) = childProcesses s"
  "outputStreamer (escaping e s) = outputStreamer s"
  "isShuttingDown (escaping e s) = isShuttingDown s"
  by (simp_all add: escaping_def split: option.splits)

text \<open>executeCommand: the three rejections and the spawn\<close>

lemma executeCommand_shutting_down:
  "isShuttingDown s \<Longrightarrow> executeCommand now pid c s = (Some ShutdownError, s)"
  by (simp add: executeCommand_def)

lemma executeCommand_invalid:
  "\<not> isShuttingDown s \<Longrightarrow>
   \<not> isValid (sanitizeClaudeCommand (commandSanitizer s) (c_command c) (c_args c)
                (c_workingDirectory c)) \<Longrightarrow>
   executeCommand now pid c s =
     (Some (SanitizationError (violations (sanitizeClaudeCommand (commandSanitizer s)
        (c_command c) (c_args c) (c_workingDirectory c)))), s)"
  by (simp add: executeCommand_def Let_def)

lemma executeCommand_duplicate:
  "\<not> isShuttingDown s \<Longrightarrow>
   isValid (sanitizeClaudeCommand (commandSanitizer s) (c_command c) (c_args c)
              (c_workingDirectory c)) \<Longrightarrow>
   map_of (processes s) (c_id c) \<noteq> None \<Longrightarrow>
   executeCommand now pid c s = (Some (DuplicateIdError (c_id c)), s)"
  by (simp add: executeCommand_def Let_def)

lemma executeCommand_spawns:
  assumes "\<not> isShuttingDown s"
      and "isValid (sanitizeClaudeCommand (commandSanitizer s) (c_command c) (c_args c)
              (c_workingDirectory c))"
      and "map_of (processes s) (c_id c) = None"
  shows "executeCommand now pid c s =
     (None, s\<lparr> processes := AList.update (c_id c) (length (invocations s)) (processes s),
               invocations := invocations s @ [spawned now pid c],
               childProcesses :=
                 AList.update (c_id c) (length (invocations s)) (childProcesses s) \<rparr>)"
  using assms
  by (simp add: executeCommand_def Let_def spawnClaudeProcess_def spawned_def
        updateInvocation_def updateProcess_def)


lemma settle_again: "i_settled (invocations s ! k) \<Longrightarrow> settle now k outcome s = s"
  by (simp add: settle_def)

lemma settle_processes [simp]: "processes (settle now k outcome s) = processes s"
  by (simp add: settle_def finishExecuteCommand_def finishExecuteStreamingCommand_def Let_def
        split: sum.splits option.splits)

lemma settle_length [simp]:
  "length (invocations (settle now k outcome s)) = length (invocations s)"
  by (simp add: settle_def finishExecuteCommand_def finishExecuteStreamingCommand_def Let_def
        split: sum.splits option.splits)

lemma settle_process:
  assumes "k < length (invocations s)" and "\<not> i_settled (invocations s ! k)"
  shows "i_process (invocations (settle now k outcome s) ! k) =
     (case outcome of
        Inr result \<Rightarrow> (i_process (invocations s ! k))
           \<lparr> p_status := completed, p_endTime := Some now, p_exitCode := Some 0 \<rparr>
      | Inl e \<Rightarrow> (i_process (invocations s ! k))
           \<lparr> p_status := failed, p_endTime := Some now, p_error := Some (MessageOf e),
             p_exitCode := Some 1 \<rparr>)"
  using assms
  by (simp add: settle_def finishExecuteCommand_def finishExecuteStreamingCommand_def Let_def
        split: sum.splits option.splits)

lemma settle_result:
  assumes "k < length (invocations s)" and "\<not> i_settled (invocations s ! k)"
  shows "i_result (invocations (settle now k outcome s) ! k) =
     Some (case i_onOutput (invocations s ! k) of
             None \<Rightarrow> outcome
           | Some handler \<Rightarrow>
               (case outcome of
                  Inl e \<Rightarrow> Inl e
                | Inr result \<Rightarrow>
                    Inr (if getFullOutput (c_id (i_command (invocations s ! k)))
                              (outputStreamer s) \<noteq> []
                         then getFullOutput (c_id (i_command (invocations s ! k)))
                                (outputStreamer s)
                         else result)))"
  using assms
  by (simp add: settle_def finishExecuteCommand_def finishExecuteStreamingCommand_def Let_def
        split: sum.splits option.splits)

lemma invalid_command_rejected:
  assumes "violations (sanitizeClaudeCommand (commandSanitizer s) (c_command c) (c_args c)
             (c_workingDirectory c)) \<noteq> []"
  shows "snd (executeCommand now pid c s) = s
       \<and> fst (executeCommand now pid c s) \<noteq> None
       \<and> (\<not> isShuttingDown s \<longrightarrow>
            fst (executeCommand now pid c s) =
              Some (SanitizationError (violations (sanitizeClaudeCommand (commandSanitizer s)
                      (c_command c) (c_args c) (c_workingDirectory c)))))"
proof -
  have "isValid (sanitizeClaudeCommand (commandSanitizer s) (c_command c) (c_args c)
             (c_workingDirectory c)) =
        (violations (sanitizeClaudeCommand (commandSanitizer s) (c_command c) (c_args c)
             (c_workingDirectory c)) = [])"
    using verdictOK_sanitizeCommand
      [of "commandSanitizer s" "c_command c" "c_args c" "c_workingDirectory c" claudeOptions]
    by (simp add: verdictOK_def sanitizeClaudeCommand_def)
  with assms have bad: "\<not> isValid (sanitizeClaudeCommand (commandSanitizer s) (c_command c)
      (c_args c) (c_workingDirectory c))"
    by simp
  show ?thesis
  proof (cases "isShuttingDown s")
    case True
    then show ?thesis by (simp add: executeCommand_shutting_down)
  next
    case False
    then show ?thesis by (simp add: executeCommand_invalid [OF False bad])
  qed
qed

lemma valid_command_spawns:
  assumes "violations (sanitizeClaudeCommand (commandSanitizer s) (c_command c) (c_args c)
             (c_workingDirectory c)) = []"
      and "\<not> isShuttingDown s" and "map_of (processes s) (c_id c) = None"
  shows "fst (executeCommand now pid c s) = None
       \<and> length (invocations (snd (executeCommand now pid c s))) = Suc (length (invocations s))
       \<and> map_option p_status (getProcess (c_id c) (snd (executeCommand now pid c s)))
           = Some running"
proof -
  have "isValid (sanitizeClaudeCommand (commandSanitizer s) (c_command c) (c_args c)
             (c_workingDirectory c))"
    using verdictOK_sanitizeCommand
      [of "commandSanitizer s" "c_command c" "c_args c" "c_workingDirectory c" claudeOptions]
      assms(1)
    by (simp add: verdictOK_def sanitizeClaudeCommand_def)
  from executeCommand_spawns [OF assms(2) this assms(3)]
  show ?thesis by (simp add: getProcess_def update_conv' spawned_def)
qed

text \<open>
  Claim C6, amended. \<open>executeCommand\<close> rejects with the duplicate-id error exactly when
  the manager is not shutting down, the command passes the sanitizer, and the id is in
  \<open>processes\<close>, whatever the status of the record under that id.
\<close>

theorem duplicate_id_rejection:
  "(fst (executeCommand now pid c s) = Some (DuplicateIdError (c_id c)))
     = (\<not> isShuttingDown s
        \<and> isValid (sanitizeClaudeCommand (commandSanitizer s) (c_command c) (c_args c)
              (c_workingDirectory c))
        \<and> map_of (processes s) (c_id c) \<noteq> None)"
  by (simp add: executeCommand_def Let_def)


text \<open>
  Claim C2. When the verdict of the sanitizer on a command has a violation,
  \<open>executeCommand\<close> fails and leaves the manager as it was: no invocation, so no child
  and no process record, is added; the failure is the sanitization error with the list of
  violations (on a manager that is shutting down the shutdown check comes first, and the
  sanitizer is not asked). When the verdict has no violation, whatever its warnings, a
  manager that is not shutting down and does not know the id spawns the child and the
  record is running.
\<close>

theorem rejected_command_never_spawns:
  "(violations (sanitizeClaudeCommand (commandSanitizer s) (c_command c) (c_args c)
       (c_workingDirectory c)) \<noteq> [] \<longrightarrow>
      snd (executeCommand now pid c s) = s
      \<and> fst (executeCommand now pid c s) \<noteq> None
      \<and> (\<not> isShuttingDown s \<longrightarrow>
           fst (executeCommand now pid c s) =
             Some (SanitizationError (violations (sanitizeClaudeCommand (commandSanitizer s)
                     (c_command c) (c_args c) (c_workingDirectory c))))))
   \<and> (violations (sanitizeClaudeCommand (commandSanitizer s) (c_command c) (c_args c)
         (c_workingDirectory c)) = []
       \<and> \<not> isShuttingDown s \<and> map_of (processes s) (c_id c) = None \<longrightarrow>
      fst (executeCommand now pid c s) = None
      \<and> length (invocations (snd (executeCommand now pid c s)))
          = Suc (length (invocations s))
      \<and> map_option p_status (getProcess (c_id c) (snd (executeCommand now pid c s)))
          = Some running)"
  using invalid_command_rejected [of s c now pid] valid_command_spawns [of s c now pid]
  by blast

lemma onExit_processes [simp]: "processes (onExit now k code signal s) = processes s"
  by (simp add: onExit_def Let_def)

lemma onExit_process:
  assumes "k < length (invocations s)" and "\<not> i_settled (invocations s ! k)"
  shows "i_process (invocations (onExit now k code signal s) ! k) =
     (if code = Some 0
      then (i_process (invocations s ! k))
             \<lparr> p_status := completed, p_endTime := Some now, p_exitCode := Some 0 \<rparr>
      else (i_process (invocations s ! k))
             \<lparr> p_status := failed, p_endTime := Some now,
               p_error := Some (MessageOf (ProcessExitError code signal
                                 (i_errorOutput (invocations s ! k)))),
               p_exitCode := Some 1 \<rparr>)"
  using assms by (simp add: onExit_def Let_def settle_process)

lemma onTimeout_processes [simp]: "processes (onTimeout now k s) = processes s"
  by (simp add: onTimeout_def Let_def)

lemma onTimeout_process:
  assumes "k < length (invocations s)" and "\<not> i_settled (invocations s ! k)"
      and "i_timer (invocations s ! k)"
  shows "i_process (invocations (onTimeout now k s) ! k) =
     (i_process (invocations s ! k))
       \<lparr> p_status := failed, p_endTime := Some now,
         p_error := Some (MessageOf (TimeoutError (timeoutOf (i_command (invocations s ! k)) s))),
         p_exitCode := Some 1 \<rparr>"
  using assms by (simp add: onTimeout_def Let_def settle_process)

lemma onError_processes [simp]: "processes (onError now k message s) = processes s"
  by (simp add: onError_def Let_def split: prod.splits option.splits)

lemma streamError_listened:
  "listenersOf ''error'' st \<noteq> [] \<Longrightarrow> fst (streamError now pid message st) = None"
  by (simp add: streamError_def Let_def emit_def split: prod.splits)

lemma onError_process:
  assumes "k < length (invocations s)" and "\<not> i_settled (invocations s ! k)"
      and "isStreaming (c_id (i_command (invocations s ! k))) (outputStreamer s)
             \<longrightarrow> listenersOf ''error'' (outputStreamer s) \<noteq> []"
  shows "i_process (invocations (onError now k message s) ! k) =
     (i_process (invocations s ! k))
       \<lparr> p_status := failed, p_endTime := Some now,
         p_error := Some (MessageOf (SpawnError message)), p_exitCode := Some 1 \<rparr>"
proof (cases "isStreaming (c_id (i_command (invocations s ! k))) (outputStreamer s)")
  case False
  with assms(1,2) show ?thesis by (simp add: onError_def Let_def settle_process)
next
  case True
  with assms(3) have "listenersOf ''error'' (outputStreamer s) \<noteq> []" by simp
  from streamError_listened [OF this, of now "c_id (i_command (invocations s ! k))" message]
  obtain st where "streamError now (c_id (i_command (invocations s ! k))) message
      (outputStreamer s) = (None, st)"
    by (cases "streamError now (c_id (i_command (invocations s ! k))) message
          (outputStreamer s)") simp
  with True assms(1,2) show ?thesis by (simp add: onError_def Let_def settle_process)
qed

text \<open>
  A spawn error while the stream of the command is open and nobody listens to \<open>'error'\<close>:
  the callback throws before it rejects the promise, and the record stays as it was.
\<close>

lemma onError_unheard:
  assumes "k < length (invocations s)"
      and "isStreaming (c_id (i_command (invocations s ! k))) (outputStreamer s)"
      and "listenersOf ''error'' (outputStreamer s) = []"
  shows "i_process (invocations (onError now k message s) ! k) = i_process (invocations s ! k)"
    and "uncaught (onError now k message s) \<noteq> uncaught s"
  using assms
  by (simp_all add: onError_def Let_def streamError_def emit_def isStreaming_def escaping_def)

lemma signalled_process:
  "i_process ((xs[c := (xs ! c)\<lparr> i_signals := sg \<rparr>]) ! k) = i_process (xs ! k)"
proof (cases "c < length xs")
  case True
  then show ?thesis by (cases "c = k") simp_all
next
  case False
  then have "xs[c := (xs ! c)\<lparr> i_signals := sg \<rparr>] = xs"
    by (simp add: list_update_beyond not_less)
  then show ?thesis by simp
qed

lemma killProcess_process:
  assumes "map_of (processes s) processId = Some k" and "k < length (invocations s)"
      and "p_status (i_process (invocations s ! k)) = running"
  shows "fst (killProcess now processId s)"
    and "processes (snd (killProcess now processId s)) = processes s"
    and "i_process (invocations (snd (killProcess now processId s)) ! k) =
     (i_process (invocations s ! k))
       \<lparr> p_status := killed, p_endTime := Some now, p_exitCode := Some (- 1),
         p_error := Some KilledByUser \<rparr>"
  using assms
  by (simp_all add: killProcess_def Let_def signalled_process split: option.splits)


lemma demoCommand_valid:
  "isValid (sanitizeClaudeCommand (commandSanitizer demoManager) (c_command demoCommand)
     (c_args demoCommand) (c_workingDirectory demoCommand))"
  by code_simp

lemma demoRunning_state:
  "demoRunning = demoManager
     \<lparr> processes := [(''p1'', 0)],
       invocations := [spawned 0 (Some 4242) demoCommand],
       childProcesses := [(''p1'', 0)] \<rparr>"
proof -
  have a: "\<not> isShuttingDown demoManager"
    by (simp add: demoManager_def new_EnhancedClaudeManager_def)
  have b: "map_of (processes demoManager) (c_id demoCommand) = None"
    by (simp add: demoManager_def new_EnhancedClaudeManager_def)
  have c: "processes demoManager = []" "invocations demoManager = []"
    "childProcesses demoManager = []" "c_id demoCommand = ''p1''"
    by (simp_all add: demoManager_def new_EnhancedClaudeManager_def demoCommand_def)
  show ?thesis
    unfolding demoRunning_def executeCommand_spawns [OF a demoCommand_valid b]
    by (simp add: c)
qed

text \<open>
  Claim C1 says that a record in a terminal status never changes its status again. Here
  the command \<open>p1\<close> is running, \<open>killProcess\<close> marks its record killed, and the exit of
  the child, ended by the signal, then rejects the promise: the rest of \<open>executeCommand\<close>
  sets the same record to failed, with exit code 1.
\<close>

theorem killed_record_reopened_by_exit:
  "map_option p_status (getProcess ''p1'' demoRunning) = Some running
   \<and> fst (killProcess 1 ''p1'' demoRunning)
   \<and> map_option p_status (getProcess ''p1'' (snd (killProcess 1 ''p1'' demoRunning)))
       = Some killed
   \<and> map_option p_status (getProcess ''p1''
        (onExit 2 0 None (Some ''SIGTERM'') (snd (killProcess 1 ''p1'' demoRunning))))
       = Some failed
   \<and> map_option p_exitCode (getProcess ''p1''
        (onExit 2 0 None (Some ''SIGTERM'') (snd (killProcess 1 ''p1'' demoRunning))))
       = Some (Some 1)"
  by (simp add: demoRunning_state getProcess_def killProcess_def Let_def spawned_def
        onExit_def settle_def finishExecuteCommand_def isStreaming_def demoManager_def
        new_EnhancedClaudeManager_def new_ClaudeOutputStreamer_def stopStreaming_def
        updateInvocation_def updateProcess_def demoCommand_def)

text \<open>
  Claim C6 says that the id of a record in a terminal status can be used again. The
  command \<open>p1\<close> has completed; the same id is still rejected as a duplicate.
\<close>

theorem terminal_id_reuse_counterexample:
  "map_option p_status (getProcess ''p1'' (onExit 1 0 (Some 0) None demoRunning))
     = Some completed
   \<and> fst (executeCommand 2 (Some 4243) demoCommand (onExit 1 0 (Some 0) None demoRunning))
     = Some (DuplicateIdError ''p1'')"
proof -
  let ?s = "onExit 1 0 (Some 0) None demoRunning"
  have st: "map_option p_status (getProcess ''p1'' ?s) = Some completed"
    by (simp add: demoRunning_state getProcess_def Let_def spawned_def
        onExit_def settle_def finishExecuteCommand_def isStreaming_def demoManager_def
        new_EnhancedClaudeManager_def new_ClaudeOutputStreamer_def
        updateInvocation_def updateProcess_def demoCommand_def)
  have a: "\<not> isShuttingDown ?s"
    by (simp add: demoRunning_state onExit_def Let_def settle_def finishExecuteCommand_def
        spawned_def demoManager_def new_EnhancedClaudeManager_def isStreaming_def
        new_ClaudeOutputStreamer_def updateInvocation_def updateProcess_def)
  have b: "commandSanitizer ?s = commandSanitizer demoManager"
    by (simp add: demoRunning_state onExit_def Let_def settle_def finishExecuteCommand_def
        spawned_def demoManager_def new_EnhancedClaudeManager_def isStreaming_def
        new_ClaudeOutputStreamer_def updateInvocation_def updateProcess_def)
  have c: "map_of (processes ?s) (c_id demoCommand) \<noteq> None"
    by (simp add: demoRunning_state demoCommand_def)
  from executeCommand_duplicate [OF a _ c, of 2 "Some 4243"] demoCommand_valid b st
  show ?thesis by (simp add: demoCommand_def)
qed


text \<open>
  Claim C10 says that the exit code of a record never is the true nonzero exit code of the
  child. The record of a failed command has the exit code 1 whatever the child said: when
  the child itself exits with 1, the two are the same.
\<close>

theorem exit_code_one_is_reported_counterexample:
  "(1::int) \<noteq> 0
   \<and> map_option p_status (getProcess ''p1'' (onExit 1 0 (Some 1) None demoRunning))
       = Some failed
   \<and> map_option p_exitCode (getProcess ''p1'' (onExit 1 0 (Some 1) None demoRunning))
       = Some (Some 1)"
  by (simp add: demoRunning_state getProcess_def Let_def spawned_def
        onExit_def settle_def finishExecuteCommand_def isStreaming_def demoManager_def
        new_EnhancedClaudeManager_def new_ClaudeOutputStreamer_def
        updateInvocation_def updateProcess_def demoCommand_def)

text \<open>
  Claim C10, amended. For the record of an invocation whose promise is not yet settled: an
  exit of the child with any code other than 0 (or with none, after a signal), the
  timeout, and a spawn error given to the error callback of the child each set the exit
  code of the record to 1, whatever the code of the child was, so that the record has the
  code of the child only when that code is 1; and \<open>killProcess\<close> on a running record
  returns true and sets its exit code to -1. The spawn error is taken with the stream of
  the command closed, or with a listener of \<open>'error'\<close> on the streamer.
\<close>

theorem failure_exit_codes:
  assumes "map_of (processes s) processId = Some k" and "k < length (invocations s)"
  shows "(\<not> i_settled (invocations s ! k) \<and> code \<noteq> Some 0 \<longrightarrow>
            map_option p_exitCode (getProcess processId (onExit now k code signal s))
              = Some (Some 1))
       \<and> (\<not> i_settled (invocations s ! k) \<and> code = Some n \<and> n \<noteq> 0 \<and> n \<noteq> 1 \<longrightarrow>
            map_option p_exitCode (getProcess processId (onExit now k code signal s))
              \<noteq> Some (Some n))
       \<and> (\<not> i_settled (invocations s ! k) \<and> i_timer (invocations s ! k) \<longrightarrow>
            map_option p_exitCode (getProcess processId (onTimeout now k s)) = Some (Some 1))
       \<and> (\<not> i_settled (invocations s ! k)
            \<and> (isStreaming (c_id (i_command (invocations s ! k))) (outputStreamer s)
                 \<longrightarrow> listenersOf ''error'' (outputStreamer s) \<noteq> []) \<longrightarrow>
            map_option p_exitCode (getProcess processId (onError now k message s))
              = Some (Some 1))
       \<and> (p_status (i_process (invocations s ! k)) = running \<longrightarrow>
            fst (killProcess now processId s)
            \<and> map_option p_exitCode (getProcess processId (snd (killProcess now processId s)))
                = Some (Some (- 1)))"
proof (intro conjI impI)
  assume "\<not> i_settled (invocations s ! k) \<and> code \<noteq> Some 0"
  then show "map_option p_exitCode (getProcess processId (onExit now k code signal s))
      = Some (Some 1)"
    using assms by (simp add: getProcess_def onExit_process)
next
  assume "\<not> i_settled (invocations s ! k) \<and> code = Some n \<and> n \<noteq> 0 \<and> n \<noteq> 1"
  then show "map_option p_exitCode (getProcess processId (onExit now k code signal s))
      \<noteq> Some (Some n)"
    using assms by (simp add: getProcess_def onExit_process)
next
  assume "\<not> i_settled (invocations s ! k) \<and> i_timer (invocations s ! k)"
  then show "map_option p_exitCode (getProcess processId (onTimeout now k s)) = Some (Some 1)"
    using assms by (simp add: getProcess_def onTimeout_process)
next
  assume "\<not> i_settled (invocations s ! k)
      \<and> (isStreaming (c_id (i_command (invocations s ! k))) (outputStreamer s)
           \<longrightarrow> listenersOf ''error'' (outputStreamer s) \<noteq> [])"
  then show "map_option p_exitCode (getProcess processId (onError now k message s))
      = Some (Some 1)"
    using assms by (simp add: getProcess_def onError_process)
next
  assume r: "p_status (i_process (invocations s ! k)) = running"
  show "fst (killProcess now processId s)"
    by (rule killProcess_process(1) [OF assms r])
  show "map_option p_exitCode (getProcess processId (snd (killProcess now processId s)))
      = Some (Some (- 1))"
    using assms killProcess_process(2,3) [OF assms r, of now]
    by (simp add: getProcess_def)
qed

text \<open>
  The running command \<open>p1\<close>, which is not streamed: its child exits with code 2, and the
  record says 1.
\<close>

theorem failure_exit_codes_witness:
  "map_of (processes demoRunning) ''p1'' = Some 0 \<and> 0 < length (invocations demoRunning)
   \<and> \<not> i_settled (invocations demoRunning ! 0) \<and> Some (2::int) \<noteq> Some 0
   \<and> (2::int) \<noteq> 0 \<and> (2::int) \<noteq> 1
   \<and> i_timer (invocations demoRunning ! 0)
   \<and> \<not> isStreaming (c_id (i_command (invocations demoRunning ! 0))) (outputStreamer demoRunning)
   \<and> p_status (i_process (invocations demoRunning ! 0)) = running
   \<and> map_option p_exitCode (getProcess ''p1'' (onExit 1 0 (Some 2) None demoRunning))
       = Some (Some 1)
   \<and> map_option p_exitCode (getProcess ''p1'' (onTimeout 1 0 demoRunning)) = Some (Some 1)
   \<and> map_option p_exitCode (getProcess ''p1'' (onError 1 0 ''ENOENT'' demoRunning))
       = Some (Some 1)
   \<and> fst (killProcess 1 ''p1'' demoRunning)
   \<and> map_option p_exitCode (getProcess ''p1'' (snd (killProcess 1 ''p1'' demoRunning)))
       = Some (Some (- 1))"
proof -
  have a: "map_of (processes demoRunning) ''p1'' = Some 0"
    and b: "0 < length (invocations demoRunning)"
    and c: "\<not> i_settled (invocations demoRunning ! 0)" "i_timer (invocations demoRunning ! 0)"
      "p_status (i_process (invocations demoRunning ! 0)) = running"
    by (simp_all add: demoRunning_state spawned_def)
  have d: "\<not> isStreaming (c_id (i_command (invocations demoRunning ! 0)))
      (outputStreamer demoRunning)"
    by (simp add: demoRunning_state isStreaming_def demoManager_def
        new_EnhancedClaudeManager_def new_ClaudeOutputStreamer_def)
  from failure_exit_codes [OF a b, of "Some 2" 1 None 2 "''ENOENT''"] a b c d
  show ?thesis by simp
qed

lemma traversalCommand_violations:
  "violations (sanitizeClaudeCommand (commandSanitizer demoManager)
     (c_command traversalCommand) (c_args traversalCommand)
     (c_workingDirectory traversalCommand)) = [PathTraversalInArgument 0 ''a..b'']"
  by code_simp

lemma warnedCommand_verdict:
  "violations (sanitizeClaudeCommand (commandSanitizer demoManager)
     (c_command warnedCommand) (c_args warnedCommand)
     (c_workingDirectory warnedCommand)) = []
   \<and> warnings (sanitizeClaudeCommand (commandSanitizer demoManager)
     (c_command warnedCommand) (c_args warnedCommand)
     (c_workingDirectory warnedCommand)) = [SensitiveWorkingDirectory]"
  by code_simp

text \<open>
  The command with the path traversal is rejected and nothing changes; the command with
  a warning and no violation is spawned.
\<close>

theorem rejected_command_never_spawns_witness:
  "violations (sanitizeClaudeCommand (commandSanitizer demoManager)
     (c_command traversalCommand) (c_args traversalCommand)
     (c_workingDirectory traversalCommand)) \<noteq> []
   \<and> \<not> isShuttingDown demoManager
   \<and> executeCommand 0 (Some 1) traversalCommand demoManager
       = (Some (SanitizationError [PathTraversalInArgument 0 ''a..b'']), demoManager)
   \<and> violations (sanitizeClaudeCommand (commandSanitizer demoManager)
     (c_command warnedCommand) (c_args warnedCommand)
     (c_workingDirectory warnedCommand)) = []
   \<and> warnings (sanitizeClaudeCommand (commandSanitizer demoManager)
     (c_command warnedCommand) (c_args warnedCommand)
     (c_workingDirectory warnedCommand)) \<noteq> []
   \<and> map_of (processes demoManager) (c_id warnedCommand) = None
   \<and> fst (executeCommand 0 (Some 1) warnedCommand demoManager) = None
   \<and> length (invocations (snd (executeCommand 0 (Some 1) warnedCommand demoManager))) = 1"
proof -
  have a: "\<not> isShuttingDown demoManager" "invocations demoManager = []"
    "map_of (processes demoManager) (c_id warnedCommand) = None"
    by (simp_all add: demoManager_def new_EnhancedClaudeManager_def)
  from rejected_command_never_spawns [of demoManager traversalCommand 0 "Some 1"]
       rejected_command_never_spawns [of demoManager warnedCommand 0 "Some 1"]
       traversalCommand_violations warnedCommand_verdict a
  show ?thesis by (simp add: prod_eq_iff)
qed


lemma trimBuffer_push: "trimBuffer m (trimBuffer m b @ [d]) = trimBuffer m (b @ [d])"
proof (cases "int (length b) > m")
  case False
  then show ?thesis by (simp add: trimBuffer_def)
next
  case True
  show ?thesis
  proof (cases "m \<le> 0")
    case True
    with \<open>int (length b) > m\<close> show ?thesis by (simp add: trimBuffer_def)
  next
    case False
    with True have "nat (int (length b) - m) \<le> length b"
      and "nat (1 + int (length b) - m) = Suc (nat (int (length b) - m))"
      and "int (length b - nat (int (length b) - m)) = m"
      by auto
    with True False show ?thesis by (simp add: trimBuffer_def)
  qed
qed

lemma trimBuffer_small: "int (length b) \<le> m \<Longrightarrow> trimBuffer m b = b"
  by (simp add: trimBuffer_def)

lemma addToBuffer_trim:
  "map_of (buffers st) pid = Some b \<Longrightarrow>
   addToBuffer pid d st =
     st\<lparr> buffers := AList.update pid (trimBuffer (maxBufferSize st) (b @ [d])) (buffers st) \<rparr>"
  by (simp add: addToBuffer_def trimBuffer_def Let_def)


lemma onStdout_invocations:
  "k < length (invocations s) \<Longrightarrow>
   invocations (onStdout now k d s) =
     (invocations s)[k := (invocations s ! k)\<lparr> i_output := i_output (invocations s ! k) @ d \<rparr>]"
  by (simp add: onStdout_def Let_def split: prod.splits)

lemma onStderr_invocations:
  "k < length (invocations s) \<Longrightarrow>
   invocations (onStderr now k d s) =
     (invocations s)[k := (invocations s ! k)
        \<lparr> i_errorOutput := i_errorOutput (invocations s ! k) @ d \<rparr>]"
  by (simp add: onStderr_def Let_def split: prod.splits)

lemma onStdout_streamer:
  "k < length (invocations s) \<Longrightarrow>
   outputStreamer (onStdout now k d s) =
     (if isStreaming (c_id (i_command (invocations s ! k))) (outputStreamer s)
      then snd (streamOutput \<lparr> o_processId = c_id (i_command (invocations s ! k)),
                  o_type = Stdout, o_data = d, o_timestamp = now, o_exitCode = None \<rparr>
                  (outputStreamer s))
      else outputStreamer s)"
  by (simp add: onStdout_def Let_def split: prod.splits)

lemma onStderr_streamer:
  "k < length (invocations s) \<Longrightarrow>
   outputStreamer (onStderr now k d s) =
     (if isStreaming (c_id (i_command (invocations s ! k))) (outputStreamer s)
      then snd (streamOutput \<lparr> o_processId = c_id (i_command (invocations s ! k)),
                  o_type = Stderr, o_data = d, o_timestamp = now, o_exitCode = None \<rparr>
                  (outputStreamer s))
      else outputStreamer s)"
  by (simp add: onStderr_def Let_def split: prod.splits)

text \<open>The part of an invocation that the data callbacks leave alone.\<close>

lemma onData_invocation:
  assumes "k < length (invocations s)"
  shows "length (invocations (onData k a s)) = length (invocations s)"
    and "i_output (invocations (onData k a s) ! k) =
          i_output (invocations s ! k)
          @ (case snd a of StdoutData d \<Rightarrow> d | StderrData d \<Rightarrow> [])"
    and "i_settled (invocations (onData k a s) ! k) = i_settled (invocations s ! k)"
    and "i_onOutput (invocations (onData k a s) ! k) = i_onOutput (invocations s ! k)"
    and "i_command (invocations (onData k a s) ! k) = i_command (invocations s ! k)"
  using assms
  by (simp_all add: onData_def onStdout_invocations onStderr_invocations split: chunk.splits)

lemma onData_buffer:
  assumes "k < length (invocations s)"
      and "isStreaming (c_id (i_command (invocations s ! k))) (outputStreamer s)"
      and "map_of (buffers (outputStreamer s)) (c_id (i_command (invocations s ! k))) = Some b"
  shows "isStreaming (c_id (i_command (invocations s ! k))) (outputStreamer (onData k a s))"
    and "map_of (buffers (outputStreamer (onData k a s))) (c_id (i_command (invocations s ! k)))
          = Some (trimBuffer (maxBufferSize (outputStreamer s))
                    (b @ [case snd a of StdoutData d \<Rightarrow> d | StderrData d \<Rightarrow> d]))"
    and "maxBufferSize (outputStreamer (onData k a s)) = maxBufferSize (outputStreamer s)"
  using assms
  by (simp_all add: onData_def onStdout_streamer onStderr_streamer streamOutput_active
        isStreaming_def addToBuffer_trim update_conv' split: chunk.splits)


lemma feed_invocation:
  assumes "k < length (invocations s)"
  shows "length (invocations (fold (onData k) arrivals s)) = length (invocations s)
       \<and> i_output (invocations (fold (onData k) arrivals s) ! k)
           = i_output (invocations s ! k) @ stdoutOf arrivals
       \<and> i_settled (invocations (fold (onData k) arrivals s) ! k)
           = i_settled (invocations s ! k)
       \<and> i_onOutput (invocations (fold (onData k) arrivals s) ! k)
           = i_onOutput (invocations s ! k)
       \<and> i_command (invocations (fold (onData k) arrivals s) ! k)
           = i_command (invocations s ! k)"
  using assms
proof (induction arrivals arbitrary: s)
  case Nil
  then show ?case by (simp add: stdoutOf_def)
next
  case (Cons a arrivals)
  note step = onData_invocation [OF Cons.prems, of a]
  from step(1) Cons.prems have "k < length (invocations (onData k a s))" by simp
  from Cons.IH [OF this] step show ?case by (simp add: stdoutOf_def)
qed

lemma feed_buffer:
  assumes "k < length (invocations s)"
      and "isStreaming (c_id (i_command (invocations s ! k))) (outputStreamer s)"
      and "map_of (buffers (outputStreamer s)) (c_id (i_command (invocations s ! k)))
             = Some (trimBuffer (maxBufferSize (outputStreamer s)) b)"
  shows "map_of (buffers (outputStreamer (fold (onData k) arrivals s)))
             (c_id (i_command (invocations s ! k)))
           = Some (trimBuffer (maxBufferSize (outputStreamer s)) (b @ chunksOf arrivals))"
  using assms
proof (induction arrivals arbitrary: s b)
  case Nil
  then show ?case by (simp add: chunksOf_def)
next
  case (Cons a arrivals)
  let ?d = "case snd a of StdoutData d \<Rightarrow> d | StderrData d \<Rightarrow> d"
  let ?s' = "onData k a s"
  note inv = onData_invocation [OF Cons.prems(1), of a]
  note buf = onData_buffer [OF Cons.prems, of a]
  have k': "k < length (invocations ?s')" using inv(1) Cons.prems(1) by simp
  have id': "c_id (i_command (invocations ?s' ! k)) = c_id (i_command (invocations s ! k))"
    using inv(5) by simp
  have "map_of (buffers (outputStreamer (fold (onData k) arrivals ?s')))
          (c_id (i_command (invocations ?s' ! k)))
        = Some (trimBuffer (maxBufferSize (outputStreamer ?s')) ((b @ [?d]) @ chunksOf arrivals))"
    using buf by (intro Cons.IH [OF k']) (simp_all add: id' trimBuffer_push)
  then show ?case by (simp add: id' buf(3) chunksOf_def)
qed

lemma getFullOutput_streamProcessExit [simp]:
  "getFullOutput pid (streamProcessExit now pid' c st) = getFullOutput pid st"
  by (simp add: streamProcessExit_def Let_def getFullOutput_def)

lemma onExit_success_result:
  assumes "k < length (invocations s)" and "\<not> i_settled (invocations s ! k)"
  shows "i_result (invocations (onExit now k (Some 0) signal s) ! k) =
     Some (Inr (case i_onOutput (invocations s ! k) of
                  None \<Rightarrow> i_output (invocations s ! k)
                | Some handler \<Rightarrow>
                    if getFullOutput (c_id (i_command (invocations s ! k))) (outputStreamer s)
                         \<noteq> []
                    then getFullOutput (c_id (i_command (invocations s ! k))) (outputStreamer s)
                    else i_output (invocations s ! k)))"
  using assms
  by (simp add: onExit_def Let_def settle_result split: option.splits)

lemma executeStreamingCommand_spawns:
  assumes "\<not> isShuttingDown s"
      and "isValid (sanitizeClaudeCommand (commandSanitizer s) (c_command c) (c_args c)
              (c_workingDirectory c))"
      and "map_of (processes s) (c_id c) = None"
  shows "executeStreamingCommand now pid c handler s =
     (None, s\<lparr> outputStreamer :=
                 onProcessOutput (c_id c) handler (startStreaming now (c_id c) (outputStreamer s)),
               processes := AList.update (c_id c) (length (invocations s)) (processes s),
               invocations :=
                 invocations s @ [(spawned now pid c)\<lparr> i_onOutput := Some handler \<rparr>],
               childProcesses :=
                 AList.update (c_id c) (length (invocations s)) (childProcesses s) \<rparr>)"
proof -
  let ?s1 = "s\<lparr> outputStreamer :=
      onProcessOutput (c_id c) handler (startStreaming now (c_id c) (outputStreamer s)) \<rparr>"
  have "executeCommand now pid c ?s1 =
     (None, ?s1\<lparr> processes := AList.update (c_id c) (length (invocations ?s1)) (processes ?s1),
               invocations := invocations ?s1 @ [spawned now pid c],
               childProcesses :=
                 AList.update (c_id c) (length (invocations ?s1)) (childProcesses ?s1) \<rparr>)"
    using assms by (intro executeCommand_spawns) simp_all
  then show ?thesis
    using assms(1) by (simp add: executeStreamingCommand_def Let_def updateInvocation_def)
qed


lemma opened_stream:
  assumes "map_of (activeStreams st) pid = None"
  shows "isStreaming pid (onProcessOutput pid handler (startStreaming now pid st))"
    and "map_of (buffers (onProcessOutput pid handler (startStreaming now pid st))) pid = Some []"
    and "maxBufferSize (onProcessOutput pid handler (startStreaming now pid st))
          = maxBufferSize st"
  using assms
  by (simp_all add: isStreaming_def onProcessOutput_def on_def startStreaming_def update_conv')

lemma plain_result:
  assumes "\<not> isShuttingDown s"
      and "isValid (sanitizeClaudeCommand (commandSanitizer s) (c_command c) (c_args c)
              (c_workingDirectory c))"
      and "map_of (processes s) (c_id c) = None"
  shows "i_result (invocations
           (onExit t1 (length (invocations s)) (Some 0) signal
              (fold (onData (length (invocations s))) arrivals
                 (snd (executeCommand t0 pid c s)))) ! length (invocations s))
         = Some (Inr (stdoutOf arrivals))"
proof -
  let ?k = "length (invocations s)"
  let ?s1 = "snd (executeCommand t0 pid c s)"
  let ?s2 = "fold (onData ?k) arrivals ?s1"
  have s1: "invocations ?s1 = invocations s @ [spawned t0 pid c]"
    by (simp add: executeCommand_spawns [OF assms])
  then have k: "?k < length (invocations ?s1)"
    and at: "invocations ?s1 ! ?k = spawned t0 pid c"
    by simp_all
  note fed = feed_invocation [OF k, of arrivals]
  from fed have k2: "?k < length (invocations ?s2)" using k by simp
  from fed at have pending: "\<not> i_settled (invocations ?s2 ! ?k)"
    and out: "i_output (invocations ?s2 ! ?k) = stdoutOf arrivals"
    and plain: "i_onOutput (invocations ?s2 ! ?k) = None"
    by (simp_all add: spawned_def)
  show ?thesis
    by (simp add: onExit_success_result [OF k2 pending] out plain)
qed

text \<open>
  In general the streaming call returns the chunks of both kinds that the buffer still
  holds, or the stdout text when that is empty.
\<close>

lemma streamed_result:
  assumes "\<not> isShuttingDown s"
      and "isValid (sanitizeClaudeCommand (commandSanitizer s) (c_command c) (c_args c)
              (c_workingDirectory c))"
      and "map_of (processes s) (c_id c) = None"
      and "map_of (activeStreams (outputStreamer s)) (c_id c) = None"
  shows "i_result (invocations
           (onExit t1 (length (invocations s)) (Some 0) signal
              (fold (onData (length (invocations s))) arrivals
                 (snd (executeStreamingCommand t0 pid c handler s)))) ! length (invocations s))
         = Some (Inr (if concat (trimBuffer (maxBufferSize (outputStreamer s))
                                   (chunksOf arrivals)) \<noteq> []
                      then concat (trimBuffer (maxBufferSize (outputStreamer s))
                                     (chunksOf arrivals))
                      else stdoutOf arrivals))"
proof -
  let ?k = "length (invocations s)"
  let ?s1 = "snd (executeStreamingCommand t0 pid c handler s)"
  let ?s2 = "fold (onData ?k) arrivals ?s1"
  note sp = executeStreamingCommand_spawns [OF assms(1,2,3), of t0 pid handler]
  have s1: "invocations ?s1 = invocations s @ [(spawned t0 pid c)\<lparr> i_onOutput := Some handler \<rparr>]"
    and st: "outputStreamer ?s1 =
      onProcessOutput (c_id c) handler (startStreaming t0 (c_id c) (outputStreamer s))"
    by (simp_all add: sp)
  from s1 have k: "?k < length (invocations ?s1)"
    and at: "invocations ?s1 ! ?k = (spawned t0 pid c)\<lparr> i_onOutput := Some handler \<rparr>"
    by simp_all
  have idk: "c_id (i_command (invocations ?s1 ! ?k)) = c_id c"
    by (simp add: at spawned_def)
  note op = opened_stream [OF assms(4), of handler t0]
  note fed = feed_invocation [OF k, of arrivals]
  from fed have k2: "?k < length (invocations ?s2)" using k by simp
  from fed at have pending: "\<not> i_settled (invocations ?s2 ! ?k)"
    and out: "i_output (invocations ?s2 ! ?k) = stdoutOf arrivals"
    and streaming: "i_onOutput (invocations ?s2 ! ?k) = Some handler"
    and idk2: "c_id (i_command (invocations ?s2 ! ?k)) = c_id c"
    by (simp_all add: spawned_def)
  have "map_of (buffers (outputStreamer ?s2)) (c_id (i_command (invocations ?s1 ! ?k)))
      = Some (trimBuffer (maxBufferSize (outputStreamer ?s1)) ([] @ chunksOf arrivals))"
    using op by (intro feed_buffer [OF k]) (simp_all add: idk st trimBuffer_def)
  then have full: "getFullOutput (c_id c) (outputStreamer ?s2)
      = concat (trimBuffer (maxBufferSize (outputStreamer s)) (chunksOf arrivals))"
    by (simp add: getFullOutput_def idk st op(3))
  show ?thesis
    by (simp add: onExit_success_result [OF k2 pending] out streaming idk2 full)
qed

lemma stdout_only_buffer:
  assumes "\<forall>a \<in> set arrivals. isStdoutData (snd a)"
      and "int (length arrivals) \<le> m"
  shows "concat (trimBuffer m (chunksOf arrivals)) = stdoutOf arrivals"
proof -
  have "trimBuffer m (chunksOf arrivals) = chunksOf arrivals"
    using assms(2) by (simp add: trimBuffer_small chunksOf_def)
  moreover have "concat (chunksOf arrivals) = stdoutOf arrivals"
    using assms(1)
    by (induction arrivals)
       (auto simp: chunksOf_def stdoutOf_def isStdoutData_def split: chunk.splits)
  ultimately show ?thesis by simp
qed

text \<open>
  Claim C8, amended. A manager that is not shutting down is given a command that passes
  the sanitizer, under an id that it does not know and for which no stream is open. The
  child writes chunks and exits with code 0, and between the call and that exit nothing
  but these chunks reaches the manager: no other call on it and no timeout. When all the
  chunks are stdout chunks and they are at most \<open>maxBufferSize\<close>, the text that
  \<open>executeStreamingCommand\<close> returns is the text that \<open>executeCommand\<close> returns for the
  same chunks, the stdout chunks in their order.
\<close>

theorem streaming_result_equals_accumulated:
  assumes "\<not> isShuttingDown s"
      and "isValid (sanitizeClaudeCommand (commandSanitizer s) (c_command c) (c_args c)
              (c_workingDirectory c))"
      and "map_of (processes s) (c_id c) = None"
      and "map_of (activeStreams (outputStreamer s)) (c_id c) = None"
      and "\<forall>a \<in> set arrivals. isStdoutData (snd a)"
      and "int (length arrivals) \<le> maxBufferSize (outputStreamer s)"
  shows "i_result (invocations
           (onExit t1 (length (invocations s)) (Some 0) signal
              (fold (onData (length (invocations s))) arrivals
                 (snd (executeStreamingCommand t0 pid c handler s)))) ! length (invocations s))
         = i_result (invocations
           (onExit t1 (length (invocations s)) (Some 0) signal
              (fold (onData (length (invocations s))) arrivals
                 (snd (executeCommand t0 pid c s)))) ! length (invocations s))
       \<and> i_result (invocations
           (onExit t1 (length (invocations s)) (Some 0) signal
              (fold (onData (length (invocations s))) arrivals
                 (snd (executeCommand t0 pid c s)))) ! length (invocations s))
         = Some (Inr (stdoutOf arrivals))"
  by (simp add: plain_result [OF assms(1,2,3)] streamed_result [OF assms(1,2,3,4)]
        stdout_only_buffer [OF assms(5,6)])


lemma demoManager_fresh:
  "\<not> isShuttingDown demoManager" "invocations demoManager = []"
  "map_of (processes demoManager) (c_id demoCommand) = None"
  "map_of (activeStreams (outputStreamer demoManager)) (c_id demoCommand) = None"
  "maxBufferSize (outputStreamer demoManager) = 1000"
  by (simp_all add: demoManager_def new_EnhancedClaudeManager_def new_ClaudeOutputStreamer_def
        defaultConfig_def)

text \<open>
  Claim C8 says that the two calls return the same text for the same chunks. The buffer
  of the streamer also holds the stderr chunks: for a stdout chunk \<open>a\<close> followed by a
  stderr chunk \<open>w\<close> and the exit with code 0, \<open>executeCommand\<close> returns \<open>a\<close> and
  \<open>executeStreamingCommand\<close> returns \<open>aw\<close>.
\<close>

theorem streaming_result_differs_counterexample:
  "i_result (invocations
      (onExit 3 0 (Some 0) None (fold (onData 0) stdoutThenStderr demoRunning)) ! 0)
     = Some (Inr ''a'')
   \<and> i_result (invocations
      (onExit 3 0 (Some 0) None (fold (onData 0) stdoutThenStderr demoStreaming)) ! 0)
     = Some (Inr ''aw'')"
  using plain_result [OF demoManager_fresh(1) demoCommand_valid demoManager_fresh(3),
          of 3 None stdoutThenStderr 0 "Some 4242"]
        streamed_result [OF demoManager_fresh(1) demoCommand_valid demoManager_fresh(3,4),
          of 3 None stdoutThenStderr 0 "Some 4242" 7]
  by (simp add: demoManager_fresh demoRunning_def demoStreaming_def stdoutThenStderr_def
        stdoutOf_def chunksOf_def trimBuffer_def)

text \<open>Two stdout chunks \<open>a\<close> and \<open>b\<close>: both calls return \<open>ab\<close>.\<close>

theorem streaming_result_equals_accumulated_witness:
  "\<not> isShuttingDown demoManager
   \<and> isValid (sanitizeClaudeCommand (commandSanitizer demoManager) (c_command demoCommand)
         (c_args demoCommand) (c_workingDirectory demoCommand))
   \<and> map_of (processes demoManager) (c_id demoCommand) = None
   \<and> map_of (activeStreams (outputStreamer demoManager)) (c_id demoCommand) = None
   \<and> list_all (\<lambda>a. isStdoutData (snd a)) stdoutOnly
   \<and> int (length stdoutOnly) \<le> maxBufferSize (outputStreamer demoManager)
   \<and> i_result (invocations
        (onExit 3 0 (Some 0) None (fold (onData 0) stdoutOnly demoStreaming)) ! 0)
       = Some (Inr ''ab'')
   \<and> i_result (invocations
        (onExit 3 0 (Some 0) None (fold (onData 0) stdoutOnly demoRunning)) ! 0)
       = Some (Inr ''ab'')"
proof -
  have e: "\<forall>a \<in> set stdoutOnly. isStdoutData (snd a)"
    by (simp add: stdoutOnly_def isStdoutData_def)
  have f: "int (length stdoutOnly) \<le> maxBufferSize (outputStreamer demoManager)"
    by (simp add: stdoutOnly_def demoManager_fresh)
  from streaming_result_equals_accumulated
         [OF demoManager_fresh(1) demoCommand_valid demoManager_fresh(3,4) e f,
          of 3 None 0 "Some 4242" 7]
       demoManager_fresh demoCommand_valid e f
  show ?thesis
    by (simp add: demoRunning_def demoStreaming_def stdoutOnly_def stdoutOf_def list_all_iff)
qed


end
